theory Spec2Isabelle
  imports Complex_Main
begin

section \<open>The forecast dashboard script \<^verbatim>\<open>app.py\<close> as a function of one render\<close>

text \<open>
  The script is executed top to bottom once per render.  One run is modelled as a
  function from the inputs of the render (the uploaded file, the two sidebar widgets)
  to a \<open>page\<close>: the trace of what the run showed and which library calls it made, and
  how the run ended (it reached the last line, it called \<^verbatim>\<open>st.stop()\<close>, or an exception
  left the script).  Calls into pandas, prophet and the spreadsheet writer are parameters
  of the model, collected in the record \<open>ext\<close>; each of them may raise.  Putting a
  message, a chart, a table or the download button on the page is taken to succeed.
  Static page furniture (title, instructions, sub-headers, the per-tab heading) carries
  no data and is left out of the trace.
\<close>

subsection \<open>Data\<close>

text \<open>A cell of a data frame.  \<open>NaN\<close> is the missing value; a timestamp is a day number.\<close>

datatype cell = NaN | Str string | Num real | Timestamp int

text \<open>A data frame as loaded: its column index, and its rows, each row giving the cell
  under a column name.\<close>

record table =
  columns :: "string list"
  rows :: "(string \<Rightarrow> cell) list"

text \<open>The uploaded file object: only the attributes the script reads.\<close>

record upload =
  name :: string
  fsize :: nat

datatype mode = additive | multiplicative

datatype exn =
    NameError string
  | StreamlitAPIException
  | ValueError
  | FileNotFoundError
  | LibraryError string

text \<open>A row of the frame that \<^verbatim>\<open>m.predict\<close> returns, restricted to the four columns
  the script names (the library's further component columns are carried along by the
  script untouched and never inspected), and the same row after line 102 has added
  the column \<^verbatim>\<open>sku\<close>.\<close>

record forecast_row =
  ds :: int
  yhat :: real
  yhat_lower :: real
  yhat_upper :: real

record tagged_row = forecast_row +
  sku :: cell

text \<open>The logical content of the worksheet written by
  \<^verbatim>\<open>to_excel(excel_buffer, index=False)\<close>: one header row of column names, then one
  row per row of the frame.\<close>

record sheet =
  header :: "string list"
  body :: "tagged_row list"

record download =
  data :: string
  file_name :: string
  mime :: string

datatype message =
    TooLarge real nat
  | Loaded
  | UsingExample
  | MissingColumn string
  | Done

datatype event =
    Error message
  | Success message
  | Info message
  | ReadCsv upload
  | ReadExcel upload
  | ReadCsvPath string
  | Tabs "cell list"
  | Fit cell mode "(int option \<times> cell) list"
  | PlotlyChart cell "tagged_row list"
  | ComponentsPlot cell
  | Dataframe cell "forecast_row list"
  | ToExcel sheet
  | DownloadButton download

datatype outcome = Completed | Stopped | Raised exn

record page =
  events :: "event list"
  outcome :: outcome

subsection \<open>The libraries the script calls\<close>

text \<open>
  \<open>'m\<close> is the state of a fitted model, \<open>'r\<close> whatever a run draws at random.
  \<^item> \<open>read_csv\<close>, \<open>read_excel\<close>: parsing the uploaded file (lines 50 and 52);
  \<^item> \<open>read_default\<close>: what \<^verbatim>\<open>pd.read_csv\<close> gives on the relative path
    \<^verbatim>\<open>data/datos_grupasa.csv\<close> (line 56): the bundled dataset, or the exception it
    raises when the file is not found or does not parse;
  \<^item> \<open>to_datetime\<close>: \<^verbatim>\<open>pd.to_datetime\<close> on a column; \<open>None\<close> in its result is \<^verbatim>\<open>NaT\<close>;
  \<^item> \<open>fit\<close>: \<^verbatim>\<open>Prophet(...).fit\<close> on the columns \<^verbatim>\<open>ds\<close>, \<^verbatim>\<open>y\<close>;
  \<^item> \<open>point\<close>, \<open>bounds\<close>: the estimates of \<^verbatim>\<open>m.predict\<close> at one timestamp;
  \<^item> \<open>write_xlsx\<close>: the encoding of a worksheet as the bytes of an \<^verbatim>\<open>.xlsx\<close> file.
\<close>

record ('m, 'r) ext =
  read_csv :: "upload \<Rightarrow> exn + table"
  read_excel :: "upload \<Rightarrow> exn + table"
  read_default :: "exn + table"
  to_datetime :: "cell list \<Rightarrow> exn + int option list"
  fit :: "mode \<Rightarrow> (int option \<times> cell) list \<Rightarrow> exn + 'm"
  point :: "'m \<Rightarrow> int \<Rightarrow> real"
  bounds :: "'m \<Rightarrow> 'r \<Rightarrow> int \<Rightarrow> real \<times> real"
  write_xlsx :: "sheet \<Rightarrow> exn + string"

text \<open>A fitted \<^verbatim>\<open>Prophet\<close> object: the dates of its history and the fitted state.\<close>

record 'm prophet =
  history_dates :: "int list"
  params :: 'm

text \<open>Modelled from the spec: the forecasting library (prophet) is not part of the
  sources.  Fitting keeps the timeline of the series it was given, in ascending order
  and each timestamp once; whether the fit succeeds, and the fitted state, are the
  library's (\<open>fit\<close>).\<close>

definition Prophet_fit ::
  "('m, 'r) ext \<Rightarrow> mode \<Rightarrow> (int option \<times> cell) list \<Rightarrow> exn + 'm prophet" where
  "Prophet_fit E seasonality_mode history =
     (case fit E seasonality_mode history of
        Inl e \<Rightarrow> Inl e
      | Inr p \<Rightarrow>
          Inr \<lparr>history_dates = sort (remdups (List.map_filter fst history)), params = p\<rparr>)"

text \<open>Modelled from the spec: \<^verbatim>\<open>make_future_dataframe\<close> of the forecasting library
  "extends the timeline by the horizon": the historical timestamps followed by
  \<open>periods\<close> further days after the last one.  It raises on a model without history.\<close>

definition make_future_dataframe :: "'m prophet \<Rightarrow> nat \<Rightarrow> exn + int list" where
  "make_future_dataframe m periods =
     (if history_dates m = [] then Inl (LibraryError ''Model has not been fit.'')
      else Inr (history_dates m @
                map (\<lambda>i. last (history_dates m) + int i) [1..<Suc periods]))"

text \<open>Modelled from the spec: \<^verbatim>\<open>predict\<close> of the forecasting library gives "point
  estimate and bounds for every timestamp (historical + future)", one row per timestamp
  of the frame it is given.  Point estimation is "stochastic-free"; the bounds may
  depend on what the run draws at random.\<close>

definition predict :: "('m, 'r) ext \<Rightarrow> 'm prophet \<Rightarrow> 'r \<Rightarrow> int list \<Rightarrow> forecast_row list" where
  "predict E m rnd future =
     map (\<lambda>d. \<lparr>ds = d, yhat = point E (params m) d,
                yhat_lower = fst (bounds E (params m) rnd d),
                yhat_upper = snd (bounds E (params m) rnd d)\<rparr>) future"

subsection \<open>pandas and streamlit operations the script uses\<close>

text \<open>Elementwise \<^verbatim>\<open>==\<close> of a column with a scalar: a missing value equals nothing.\<close>

fun pd_eq :: "cell \<Rightarrow> cell \<Rightarrow> bool" where
  "pd_eq NaN b = False"
| "pd_eq a NaN = False"
| "pd_eq a b = (a = b)"

text \<open>\<^verbatim>\<open>Series.unique()\<close>: the distinct values in order of first appearance.\<close>

fun unique_from :: "cell list \<Rightarrow> cell list \<Rightarrow> cell list" where
  "unique_from seen [] = []"
| "unique_from seen (x # xs) =
     (if x \<in> set seen then unique_from seen xs else x # unique_from (x # seen) xs)"

definition unique :: "cell list \<Rightarrow> cell list" where
  "unique xs = unique_from [] xs"

text \<open>\<^verbatim>\<open>DataFrame.tail(n)\<close>: the last \<open>n\<close> rows, all rows when there are fewer.\<close>

definition tail :: "nat \<Rightarrow> 'a list \<Rightarrow> 'a list" where
  "tail n xs = drop (length xs - n) xs"

text \<open>\<^verbatim>\<open>pd.concat\<close> of a list of frames with the same columns; it raises on no frame.\<close>

definition pd_concat :: "'a list list \<Rightarrow> exn + 'a list" where
  "pd_concat frames = (if frames = [] then Inl ValueError else Inr (concat frames))"

text \<open>\<^verbatim>\<open>st.tabs\<close> raises when it is given no label.\<close>

definition st_tabs :: "cell list \<Rightarrow> exn + unit" where
  "st_tabs labels = (if labels = [] then Inl StreamlitAPIException else Inr ())"

definition endswith :: "string \<Rightarrow> string \<Rightarrow> bool" where
  "endswith s suf = (length suf \<le> length s \<and> drop (length s - length suf) s = suf)"

subsection \<open>The script\<close>

definition MAX_SIZE_MB :: nat where
  "MAX_SIZE_MB = 5"

text \<open>Lines 41 to 57.  The result is the binding of the name \<^verbatim>\<open>df\<close> after the block:
  \<open>None\<close> when no assignment to it was executed.  The quotient of line 43 is a float in
  the source; a division by \<open>2^20\<close> is exact in binary floating point, so the comparison
  of line 44 is the comparison of the exact quotient.\<close>

definition load :: "('m, 'r) ext \<Rightarrow> upload option \<Rightarrow> event list \<times> (exn + table option)" where
  "load E uploaded_file =
     (case uploaded_file of
        Some f \<Rightarrow>
          (let file_size = real (fsize f) / (1024 * 1024) in
           if file_size > real MAX_SIZE_MB
           then ([Error (TooLarge file_size MAX_SIZE_MB)], Inr None)
           else if endswith (name f) ''.csv''
           then (case read_csv E f of
                   Inl e \<Rightarrow> ([ReadCsv f], Inl e)
                 | Inr df \<Rightarrow> ([ReadCsv f, Success Loaded], Inr (Some df)))
           else (case read_excel E f of
                   Inl e \<Rightarrow> ([ReadExcel f], Inl e)
                 | Inr df \<Rightarrow> ([ReadExcel f, Success Loaded], Inr (Some df))))
      | None \<Rightarrow>
          (case read_default E of
             Inl e \<Rightarrow> ([ReadCsvPath ''data/datos_grupasa.csv''], Inl e)
           | Inr df \<Rightarrow>
               ([ReadCsvPath ''data/datos_grupasa.csv'', Info UsingExample],
                Inr (Some df))))"

definition required_cols :: "string list" where
  "required_cols = [''sku'', ''fecha'', ''demanda_real'']"

text \<open>Lines 63 to 66: the first required column that is not in the column index.\<close>

fun check_cols :: "string list \<Rightarrow> string list \<Rightarrow> string option" where
  "check_cols [] cols = None"
| "check_cols (col # rest) cols =
     (if col \<notin> set cols then Some col else check_cols rest cols)"

text \<open>Lines 62 to 66.  Reading the unbound name \<^verbatim>\<open>df\<close> raises \<^verbatim>\<open>NameError\<close>.\<close>

definition validate :: "table option \<Rightarrow> event list \<times> (outcome + table)" where
  "validate df_binding =
     (case df_binding of
        None \<Rightarrow> ([], Inl (Raised (NameError ''df'')))
      | Some df \<Rightarrow>
          (case check_cols required_cols (columns df) of
             Some col \<Rightarrow> ([Error (MissingColumn col)], Inl Stopped)
           | None \<Rightarrow> ([], Inr df)))"

definition tag :: "cell \<Rightarrow> forecast_row \<Rightarrow> tagged_row" where
  "tag s r = \<lparr>ds = ds r, yhat = yhat r, yhat_lower = yhat_lower r,
              yhat_upper = yhat_upper r, sku = s\<rparr>"

definition display_cols :: "tagged_row \<Rightarrow> forecast_row" where
  "display_cols r = \<lparr>ds = ds r, yhat = yhat r, yhat_lower = yhat_lower r,
                     yhat_upper = yhat_upper r\<rparr>"

text \<open>Lines 88 to 90: the rows of one SKU.\<close>

definition df_sku :: "table \<Rightarrow> cell \<Rightarrow> (string \<Rightarrow> cell) list" where
  "df_sku df s = filter (\<lambda>r. pd_eq (r ''sku'') s) (rows df)"

text \<open>Lines 86 to 113, the body of the loop for one SKU.  The assignment of line 89
  raises when the parsed column has another length than the frame.\<close>

definition forecast_sku ::
  "('m, 'r) ext \<Rightarrow> 'r \<Rightarrow> table \<Rightarrow> nat \<Rightarrow> mode \<Rightarrow> cell \<Rightarrow> event list \<times> (exn + tagged_row list)" where
  "forecast_sku E rnd df periods seasonality_mode s =
     (case to_datetime E (map (\<lambda>r. r ''fecha'') (df_sku df s)) of
        Inl e \<Rightarrow> ([], Inl e)
      | Inr dates \<Rightarrow>
          if length dates \<noteq> length (df_sku df s) then ([], Inl ValueError)
          else
            (let history = zip dates (map (\<lambda>r. r ''demanda_real'') (df_sku df s)) in
             case Prophet_fit E seasonality_mode history of
               Inl e \<Rightarrow> ([Fit s seasonality_mode history], Inl e)
             | Inr m \<Rightarrow>
                 (case make_future_dataframe m periods of
                    Inl e \<Rightarrow> ([Fit s seasonality_mode history], Inl e)
                  | Inr future \<Rightarrow>
                      (let forecast = map (tag s) (predict E m rnd future) in
                       ([Fit s seasonality_mode history,
                         PlotlyChart s forecast,
                         ComponentsPlot s,
                         Dataframe s (tail periods (map display_cols forecast))],
                        Inr forecast)))))"

text \<open>Lines 84 to 113: the loop over the SKUs, appending to \<^verbatim>\<open>all_forecasts\<close>; an
  exception in one iteration ends the run.\<close>

fun forecast_loop ::
  "('m, 'r) ext \<Rightarrow> 'r \<Rightarrow> table \<Rightarrow> nat \<Rightarrow> mode \<Rightarrow> cell list \<Rightarrow> tagged_row list list
     \<Rightarrow> event list \<times> (exn + tagged_row list list)" where
  "forecast_loop E rnd df periods seasonality_mode [] all_forecasts = ([], Inr all_forecasts)"
| "forecast_loop E rnd df periods seasonality_mode (s # rest) all_forecasts =
     (case forecast_sku E rnd df periods seasonality_mode s of
        (evs, Inl e) \<Rightarrow> (evs, Inl e)
      | (evs, Inr forecast) \<Rightarrow>
          (case forecast_loop E rnd df periods seasonality_mode rest (all_forecasts @ [forecast]) of
             (evs', res) \<Rightarrow> (evs @ evs', res)))"

text \<open>Lines 78 to 113.\<close>

definition forecast_all ::
  "('m, 'r) ext \<Rightarrow> 'r \<Rightarrow> table \<Rightarrow> nat \<Rightarrow> mode \<Rightarrow> event list \<times> (exn + tagged_row list list)" where
  "forecast_all E rnd df periods seasonality_mode =
     (let skus = unique (map (\<lambda>r. r ''sku'') (rows df)) in
      case st_tabs skus of
        Inl e \<Rightarrow> ([], Inl e)
      | Inr _ \<Rightarrow>
          (case forecast_loop E rnd df periods seasonality_mode skus [] of
             (evs, res) \<Rightarrow> (Tabs skus # evs, res)))"

definition forecast_columns :: "string list" where
  "forecast_columns = [''ds'', ''yhat'', ''yhat_lower'', ''yhat_upper'', ''sku'']"

definition to_excel :: "tagged_row list \<Rightarrow> sheet" where
  "to_excel df = \<lparr>header = forecast_columns, body = df\<rparr>"

text \<open>Lines 118 to 129.  The call of the writer is on the trace whether or not it
  raises.\<close>

definition export :: "('m, 'r) ext \<Rightarrow> tagged_row list list \<Rightarrow> event list \<times> (exn + unit)" where
  "export E all_forecasts =
     (case pd_concat all_forecasts of
        Inl e \<Rightarrow> ([], Inl e)
      | Inr df_all_forecast \<Rightarrow>
          (case write_xlsx E (to_excel df_all_forecast) of
             Inl e \<Rightarrow> ([ToExcel (to_excel df_all_forecast)], Inl e)
           | Inr excel_buffer \<Rightarrow>
               ([ToExcel (to_excel df_all_forecast),
                 DownloadButton
                   \<lparr>data = excel_buffer,
                    file_name = ''forecast_all_skus.xlsx'',
                    mime = ''application/vnd.openxmlformats-officedocument.spreadsheetml.sheet''\<rparr>,
                 Success Done],
                Inr ())))"

text \<open>Lines 59 to 129: the script after the loading block, from the binding of
  \<^verbatim>\<open>df\<close> that the block left.\<close>

definition pipeline ::
  "('m, 'r) ext \<Rightarrow> 'r \<Rightarrow> table option \<Rightarrow> nat \<Rightarrow> mode \<Rightarrow> page" where
  "pipeline E rnd df_binding periods seasonality_mode =
     (case validate df_binding of
        (ev2, Inl halt) \<Rightarrow> \<lparr>events = ev2, outcome = halt\<rparr>
      | (ev2, Inr df) \<Rightarrow>
          (case forecast_all E rnd df periods seasonality_mode of
             (ev3, Inl e) \<Rightarrow> \<lparr>events = ev2 @ ev3, outcome = Raised e\<rparr>
           | (ev3, Inr all_forecasts) \<Rightarrow>
               (case export E all_forecasts of
                  (ev4, Inl e) \<Rightarrow> \<lparr>events = ev2 @ ev3 @ ev4, outcome = Raised e\<rparr>
                | (ev4, Inr _) \<Rightarrow> \<lparr>events = ev2 @ ev3 @ ev4, outcome = Completed\<rparr>)))"

text \<open>One render: the whole script.\<close>

definition render ::
  "('m, 'r) ext \<Rightarrow> 'r \<Rightarrow> upload option \<Rightarrow> nat \<Rightarrow> mode \<Rightarrow> page" where
  "render E rnd uploaded_file periods seasonality_mode =
     (case load E uploaded_file of
        (ev1, Inl e) \<Rightarrow> \<lparr>events = ev1, outcome = Raised e\<rparr>
      | (ev1, Inr df_binding) \<Rightarrow>
          (let rest = pipeline E rnd df_binding periods seasonality_mode in
           \<lparr>events = ev1 @ events rest, outcome = outcome rest\<rparr>))"

subsection \<open>Reading a trace\<close>

fun is_read :: "event \<Rightarrow> bool" where
  "is_read (ReadCsv f) = True"
| "is_read (ReadExcel f) = True"
| "is_read e = False"

fun is_fit :: "event \<Rightarrow> bool" where
  "is_fit (Fit s md h) = True"
| "is_fit e = False"

fun is_chart :: "event \<Rightarrow> bool" where
  "is_chart (PlotlyChart s fc) = True"
| "is_chart (ComponentsPlot s) = True"
| "is_chart e = False"

fun is_download :: "event \<Rightarrow> bool" where
  "is_download (DownloadButton d) = True"
| "is_download e = False"

fun is_size_error :: "event \<Rightarrow> bool" where
  "is_size_error (Error (TooLarge x n)) = True"
| "is_size_error e = False"

fun is_table :: "event \<Rightarrow> bool" where
  "is_table (Dataframe s rs) = True"
| "is_table e = False"

text \<open>The forecast tables of a run, each with the SKU of its tab, in the order in which
  they were charted; the tables shown under the charts; the worksheets handed to the
  writer.\<close>

fun chart_of :: "event \<Rightarrow> (cell \<times> tagged_row list) option" where
  "chart_of (PlotlyChart s fc) = Some (s, fc)"
| "chart_of e = None"

definition charts :: "event list \<Rightarrow> (cell \<times> tagged_row list) list" where
  "charts evs = List.map_filter chart_of evs"

fun sheet_of :: "event \<Rightarrow> sheet option" where
  "sheet_of (ToExcel sh) = Some sh"
| "sheet_of e = None"

definition sheets :: "event list \<Rightarrow> sheet list" where
  "sheets evs = List.map_filter sheet_of evs"

definition points :: "tagged_row list \<Rightarrow> (int \<times> real) list" where
  "points fc = map (\<lambda>r. (ds r, yhat r)) fc"

text \<open>The timestamps and point estimates of the forecast tables of a run, per SKU.\<close>

definition point_tables :: "event list \<Rightarrow> (cell \<times> (int \<times> real) list) list" where
  "point_tables evs = map (\<lambda>(s, fc). (s, points fc)) (charts evs)"

subsection \<open>A small instance of the library interface\<close>

text \<open>A stand-in for the libraries, on which the theorems below are exercised: the
  reader returns a given table for a \<^verbatim>\<open>.csv\<close> upload, dates are cells that already hold
  timestamps, the forecaster repeats the last observed value, and the bounds are that
  value minus and plus the random draw.\<close>

fun unparsed :: "cell \<Rightarrow> bool" where
  "unparsed (Str s) = True"
| "unparsed (Num x) = True"
| "unparsed c = False"

fun as_timestamp :: "cell \<Rightarrow> int option" where
  "as_timestamp (Timestamp d) = Some d"
| "as_timestamp c = None"

definition sample_to_datetime :: "cell list \<Rightarrow> exn + int option list" where
  "sample_to_datetime cs =
     (if list_ex unparsed cs then Inl ValueError else Inr (map as_timestamp cs))"

fun number_of :: "cell \<Rightarrow> real" where
  "number_of (Num x) = x"
| "number_of c = 0"

definition sample_fit :: "mode \<Rightarrow> (int option \<times> cell) list \<Rightarrow> exn + real" where
  "sample_fit md h =
     (if length h < 2 \<or> list_ex (\<lambda>p. fst p = None) h then Inl ValueError
      else Inr (number_of (snd (last h))))"

definition sample_ext :: "table \<Rightarrow> (real, real) ext" where
  "sample_ext t =
     \<lparr>read_csv = (\<lambda>f. Inr t),
      read_excel = (\<lambda>f. Inl (LibraryError ''not a workbook'')),
      read_default = Inr t,
      to_datetime = sample_to_datetime,
      fit = sample_fit,
      point = (\<lambda>m d. m),
      bounds = (\<lambda>m r d. (m - r, m + r)),
      write_xlsx = (\<lambda>sh. Inr (concat (header sh)))\<rparr>"

definition obs :: "cell \<Rightarrow> cell \<Rightarrow> cell \<Rightarrow> string \<Rightarrow> cell" where
  "obs s f d =
     (\<lambda>c. if c = ''sku'' then s else if c = ''fecha'' then f
          else if c = ''demanda_real'' then d else NaN)"

definition small_table :: table where
  "small_table =
     \<lparr>columns = [''sku'', ''fecha'', ''demanda_real''],
      rows = [obs (Str ''A'') (Timestamp 1) (Num 10), obs (Str ''B'') (Timestamp 1) (Num 7),
              obs (Str ''A'') (Timestamp 2) (Num 12), obs (Str ''B'') (Timestamp 2) (Num 9)]\<rparr>"

definition no_fecha_table :: table where
  "no_fecha_table =
     \<lparr>columns = [''sku'', ''demanda_real''],
      rows = [obs (Str ''A'') NaN (Num 10), obs (Str ''A'') NaN (Num 12)]\<rparr>"

definition empty_table :: table where
  "empty_table = \<lparr>columns = [''sku'', ''fecha'', ''demanda_real''], rows = []\<rparr>"

text \<open>The forecast table of the sample forecaster: value \<open>v\<close> with bounds \<open>v - w\<close> and
  \<open>v + w\<close> on the given days.\<close>

definition flat :: "cell \<Rightarrow> real \<Rightarrow> real \<Rightarrow> int list \<Rightarrow> tagged_row list" where
  "flat s v w days =
     map (\<lambda>d. \<lparr>ds = d, yhat = v, yhat_lower = v - w, yhat_upper = v + w, sku = s\<rparr>) days"

text \<open>A series of \<open>n\<close> daily observations of one SKU, and a table of two SKUs with
  400 daily observations each.\<close>

definition series :: "cell \<Rightarrow> real \<Rightarrow> nat \<Rightarrow> (string \<Rightarrow> cell) list" where
  "series s v n = map (\<lambda>i. obs s (Timestamp (int i)) (Num v)) [0..<n]"

definition scenario_table :: table where
  "scenario_table =
     \<lparr>columns = [''sku'', ''fecha'', ''demanda_real''],
      rows = series (Str ''A'') 1 400 @ series (Str ''B'') 2 400\<rparr>"


definition csv_file :: "nat \<Rightarrow> upload" where
  "csv_file n = \<lparr>name = ''ventas.csv'', fsize = n\<rparr>"

section \<open>Properties of a render\<close>

subsection \<open>What each block of the script can put on the page\<close>

lemma load_events: "e \<in> set (fst (load E up)) \<Longrightarrow> \<not> is_fit e \<and> \<not> is_chart e \<and> \<not> is_download e \<and> \<not> is_table e"
  by (auto simp: load_def Let_def split: option.splits sum.splits if_splits)

lemma load_oversized:
  "real (fsize f) / (1024 * 1024) > real MAX_SIZE_MB \<Longrightarrow>
   load E (Some f) = ([Error (TooLarge (real (fsize f) / (1024 * 1024)) MAX_SIZE_MB)], Inr None)"
  by (simp add: load_def Let_def)

lemma pipeline_unbound:
  "pipeline E rnd None p md = \<lparr>events = [], outcome = Raised (NameError ''df'')\<rparr>"
  by (simp add: pipeline_def validate_def)

lemma validate_events:
  "e \<in> set (fst (validate b)) \<Longrightarrow> \<exists>c. e = Error (MissingColumn c)"
  by (auto simp: validate_def split: option.splits)

lemma forecast_sku_events:
  "e \<in> set (fst (forecast_sku E rnd df p md s)) \<Longrightarrow> is_fit e \<or> is_chart e \<or> is_table e"
  by (auto simp: forecast_sku_def Let_def split: sum.splits if_splits)

lemma forecast_loop_events:
  "e \<in> set (fst (forecast_loop E rnd df p md ss acc)) \<Longrightarrow> is_fit e \<or> is_chart e \<or> is_table e"
proof (induction ss arbitrary: acc)
  case Nil
  then show ?case by simp
next
  case (Cons s ss)
  obtain evs res where a: "forecast_sku E rnd df p md s = (evs, res)"
    by (cases "forecast_sku E rnd df p md s")
  show ?case
  proof (cases res)
    case (Inl x)
    with a Cons.prems forecast_sku_events [of e E rnd df p md s] show ?thesis by simp
  next
    case (Inr fc)
    obtain evs' res' where b: "forecast_loop E rnd df p md ss (acc @ [fc]) = (evs', res')"
      by (cases "forecast_loop E rnd df p md ss (acc @ [fc])")
    from Cons.prems a Inr b have "e \<in> set evs \<or> e \<in> set evs'" by simp
    then show ?thesis
      using forecast_sku_events [of e E rnd df p md s] Cons.IH [of "acc @ [fc]"] a b by auto
  qed
qed

lemma forecast_all_events:
  "e \<in> set (fst (forecast_all E rnd df p md)) \<Longrightarrow>
   is_fit e \<or> is_chart e \<or> is_table e \<or> (\<exists>ss. e = Tabs ss)"
  using forecast_loop_events [of e E rnd df p md "unique (map (\<lambda>r. r ''sku'') (rows df))" "[]"]
  by (auto simp: forecast_all_def Let_def split: sum.splits prod.splits)

lemma export_events:
  "e \<in> set (fst (export E fcs)) \<Longrightarrow>
   is_download e \<or> e = Success Done \<or> (\<exists>sh. e = ToExcel sh)"
  by (auto simp: export_def split: sum.splits)

lemma event_kinds:
  "is_fit x \<or> is_chart x \<or> is_table x \<or> is_download x \<or> x = Success Done
     \<or> (\<exists>ss. x = Tabs ss) \<or> (\<exists>sh. x = ToExcel sh) \<or> (\<exists>c. x = Error (MissingColumn c))
   \<Longrightarrow> \<not> is_size_error x \<and> \<not> is_read x"
  by (cases x) auto

lemma pipeline_events:
  assumes "e \<in> set (events (pipeline E rnd b p md))"
  shows "\<not> is_size_error e \<and> \<not> is_read e"
proof -
  obtain ev2 r2 where v: "validate b = (ev2, r2)"
    by (cases "validate b")
  have e2: "\<not> is_size_error x \<and> \<not> is_read x" if "x \<in> set ev2" for x
    using validate_events [of x b] v that event_kinds [of x] by auto
  show ?thesis
  proof (cases r2)
    case (Inl h)
    with v assms e2 show ?thesis by (simp add: pipeline_def)
  next
    case df: (Inr df)
    obtain ev3 r3 where f: "forecast_all E rnd df p md = (ev3, r3)"
      by (cases "forecast_all E rnd df p md")
    have e3: "\<not> is_size_error x \<and> \<not> is_read x" if "x \<in> set ev3" for x
      using forecast_all_events [of x E rnd df p md] f that event_kinds [of x] by auto
    show ?thesis
    proof (cases r3)
      case (Inl x)
      with v df f assms e2 e3 show ?thesis by (auto simp: pipeline_def)
    next
      case fcs: (Inr fcs)
      obtain ev4 r4 where x: "export E fcs = (ev4, r4)"
        by (cases "export E fcs")
      have e4: "\<not> is_size_error x \<and> \<not> is_read x" if "x \<in> set ev4" for x
        using export_events [of x E fcs] x that event_kinds [of x] by auto
      from v df f fcs x assms have "e \<in> set ev2 \<or> e \<in> set ev3 \<or> e \<in> set ev4"
        by (cases r4) (auto simp: pipeline_def)
      with e2 e3 e4 show ?thesis by blast
    qed
  qed
qed

lemma check_cols_first:
  "check_cols req cols = (case filter (\<lambda>c. c \<notin> set cols) req of [] \<Rightarrow> None | c # _ \<Rightarrow> Some c)"
  by (induction req) auto

subsection \<open>Loading and validation\<close>

text \<open>C1.  An uploaded file whose size in megabytes exceeds \<open>MAX_SIZE_MB\<close> (5) gets
  the size error, and nothing else happens in that render: the page shows exactly that
  one error, the file is never handed to a reader, no model is fitted, no chart is
  drawn and no download is offered.  The render ends there because the loading block
  left the name \<^verbatim>\<open>df\<close> unbound and the validation loop of line 64 reads it: the halt is
  the \<^verbatim>\<open>NameError\<close> that leaves the script.\<close>

theorem oversized_upload_halts:
  assumes "real (fsize f) / (1024 * 1024) > real MAX_SIZE_MB"
  shows "render E rnd (Some f) p md =
           \<lparr>events = [Error (TooLarge (real (fsize f) / (1024 * 1024)) MAX_SIZE_MB)],
            outcome = Raised (NameError ''df'')\<rparr>
         \<and> filter (\<lambda>e. is_read e \<or> is_fit e \<or> is_chart e \<or> is_download e)
              (events (render E rnd (Some f) p md)) = []"
  using assms by (simp add: render_def load_oversized pipeline_unbound)

theorem oversized_upload_halts_witness:
  "real (fsize (csv_file 6291456)) / (1024 * 1024) > real MAX_SIZE_MB
   \<and> render (sample_ext small_table) 1 (Some (csv_file 6291456)) 30 additive =
           \<lparr>events = [Error (TooLarge 6 5)], outcome = Raised (NameError ''df'')\<rparr>"
proof -
  have h: "real (fsize (csv_file 6291456)) / (1024 * 1024) > real MAX_SIZE_MB"
    by (simp add: csv_file_def MAX_SIZE_MB_def)
  show ?thesis
    using h oversized_upload_halts [OF h, of "sample_ext small_table" 1 30 additive]
    by (simp add: csv_file_def MAX_SIZE_MB_def)
qed

text \<open>C10.  The size check is strict.  On an upload the size error is on the page
  if and only if the size in megabytes is greater than \<open>MAX_SIZE_MB\<close>, which is the case
  if and only if the file has more than \<open>5 * 1024 * 1024\<close> bytes; a file of exactly that
  many bytes is handed to the reader its name selects, as the first thing the render
  does.\<close>

theorem size_check_is_strict:
  "list_ex is_size_error (events (render E rnd (Some f) p md))
     = (real (fsize f) / (1024 * 1024) > real MAX_SIZE_MB)
   \<and> (real (fsize f) / (1024 * 1024) > real MAX_SIZE_MB) = (5 * 1024 * 1024 < fsize f)
   \<and> hd (events (render E rnd (Some \<lparr>name = n, fsize = 5 * 1024 * 1024\<rparr>) p md))
       = (if endswith n ''.csv'' then ReadCsv \<lparr>name = n, fsize = 5 * 1024 * 1024\<rparr>
          else ReadExcel \<lparr>name = n, fsize = 5 * 1024 * 1024\<rparr>)"
proof (intro conjI)
  show "list_ex is_size_error (events (render E rnd (Some f) p md))
     = (real (fsize f) / (1024 * 1024) > real MAX_SIZE_MB)"
  proof (cases "real (fsize f) / (1024 * 1024) > real MAX_SIZE_MB")
    case True
    then show ?thesis by (simp add: render_def load_oversized pipeline_unbound)
  next
    case False
    have "\<not> is_size_error e" if "e \<in> set (events (render E rnd (Some f) p md))" for e
    proof -
      from that False have "e \<in> set (events (pipeline E rnd (Some (projr (read_csv E f))) p md))
          \<or> e \<in> set (events (pipeline E rnd (Some (projr (read_excel E f))) p md))
          \<or> \<not> is_size_error e"
        by (auto simp: render_def load_def Let_def split: sum.splits if_splits)
      then show ?thesis by (auto dest: pipeline_events)
    qed
    with False show ?thesis by (auto simp: list_ex_iff)
  qed
next
  show "(real (fsize f) / (1024 * 1024) > real MAX_SIZE_MB) = (5 * 1024 * 1024 < fsize f)"
    by (simp add: MAX_SIZE_MB_def field_simps)
next
  show "hd (events (render E rnd (Some \<lparr>name = n, fsize = 5 * 1024 * 1024\<rparr>) p md))
       = (if endswith n ''.csv'' then ReadCsv \<lparr>name = n, fsize = 5 * 1024 * 1024\<rparr>
          else ReadExcel \<lparr>name = n, fsize = 5 * 1024 * 1024\<rparr>)"
    by (simp add: render_def load_def Let_def MAX_SIZE_MB_def split: sum.splits)
qed

text \<open>C2.  A loaded table that lacks one of the required columns \<^verbatim>\<open>sku\<close>,
  \<^verbatim>\<open>fecha\<close>, \<^verbatim>\<open>demanda_real\<close> ends the render with \<^verbatim>\<open>st.stop()\<close> right after one
  error that names the first missing column, in the order of that list; no fit is
  attempted, no chart is drawn and no download is offered.\<close>

theorem missing_column_halts:
  assumes "load E up = (ev1, Inr (Some df))"
      and "list_ex (\<lambda>c. c \<notin> set (columns df)) required_cols"
  shows "render E rnd up p md =
           \<lparr>events = ev1 @ [Error (MissingColumn (hd (filter (\<lambda>c. c \<notin> set (columns df)) required_cols)))],
            outcome = Stopped\<rparr>
         \<and> filter (\<lambda>e. is_fit e \<or> is_chart e \<or> is_download e) (events (render E rnd up p md)) = []"
proof -
  from assms(2) obtain c cs where f: "filter (\<lambda>c. c \<notin> set (columns df)) required_cols = c # cs"
    by (cases "filter (\<lambda>c. c \<notin> set (columns df)) required_cols") (auto simp: list_ex_iff filter_empty_conv)
  then have "check_cols required_cols (columns df) = Some c"
    by (simp add: check_cols_first)
  then have r: "render E rnd up p md = \<lparr>events = ev1 @ [Error (MissingColumn c)], outcome = Stopped\<rparr>"
    using assms(1) by (simp add: render_def pipeline_def validate_def)
  have "\<not> (is_fit e \<or> is_chart e \<or> is_download e)" if "e \<in> set ev1" for e
    using load_events [of e E up] assms(1) that by simp
  then have "filter (\<lambda>e. is_fit e \<or> is_chart e \<or> is_download e) ev1 = []"
    by (simp add: filter_empty_conv)
  with r f show ?thesis by simp
qed

theorem missing_column_halts_witness:
  "render (sample_ext no_fecha_table) 1 (Some (csv_file 2048)) 30 additive =
     \<lparr>events = [ReadCsv (csv_file 2048), Success Loaded, Error (MissingColumn ''fecha'')],
      outcome = Stopped\<rparr>"
proof -
  have l: "load (sample_ext no_fecha_table) (Some (csv_file 2048))
             = ([ReadCsv (csv_file 2048), Success Loaded], Inr (Some no_fecha_table))"
    by (simp add: load_def sample_ext_def csv_file_def MAX_SIZE_MB_def endswith_def)
  have m: "list_ex (\<lambda>c. c \<notin> set (columns no_fecha_table)) required_cols"
    by (simp add: no_fecha_table_def required_cols_def)
  show ?thesis
    using missing_column_halts [OF l m, of 1 30 additive]
    by (simp add: no_fecha_table_def required_cols_def)
qed

subsection \<open>The forecasting loop\<close>

lemma charts_append: "charts (xs @ ys) = charts xs @ charts ys"
  by (simp add: charts_def map_filter_def)

lemma sheets_append: "sheets (xs @ ys) = sheets xs @ sheets ys"
  by (simp add: sheets_def map_filter_def)

lemma charts_Cons: "charts (e # es) = (case chart_of e of None \<Rightarrow> charts es | Some c \<Rightarrow> c # charts es)"
  by (simp add: charts_def map_filter_def split: option.splits)

lemma sheets_Cons: "sheets (e # es) = (case sheet_of e of None \<Rightarrow> sheets es | Some c \<Rightarrow> c # sheets es)"
  by (simp add: sheets_def map_filter_def split: option.splits)

lemma charts_Nil: "charts [] = []" and sheets_Nil: "sheets [] = []"
  by (simp_all add: charts_def sheets_def map_filter_def)

lemma charts_none: "(\<And>e. e \<in> set evs \<Longrightarrow> chart_of e = None) \<Longrightarrow> charts evs = []"
  by (simp add: charts_def map_filter_def filter_empty_conv)

lemma sheets_none: "(\<And>e. e \<in> set evs \<Longrightarrow> sheet_of e = None) \<Longrightarrow> sheets evs = []"
  by (simp add: sheets_def map_filter_def filter_empty_conv)

text \<open>The body of the loop, when it does not raise.\<close>

lemma forecast_sku_Inr:
  assumes "snd (forecast_sku E rnd df p md s) = Inr fc"
  shows "\<exists>dates m.
           to_datetime E (map (\<lambda>r. r ''fecha'') (df_sku df s)) = Inr dates
         \<and> length dates = length (df_sku df s)
         \<and> Prophet_fit E md (zip dates (map (\<lambda>r. r ''demanda_real'') (df_sku df s))) = Inr m
         \<and> history_dates m \<noteq> []
         \<and> fc = map (tag s) (predict E m rnd
                   (history_dates m @ map (\<lambda>i. last (history_dates m) + int i) [1..<Suc p]))
         \<and> fst (forecast_sku E rnd df p md s) =
              [Fit s md (zip dates (map (\<lambda>r. r ''demanda_real'') (df_sku df s))),
               PlotlyChart s fc, ComponentsPlot s,
               Dataframe s (tail p (map display_cols fc))]"
  using assms
  by (auto simp: forecast_sku_def make_future_dataframe_def Let_def split: sum.splits if_splits)

lemma forecast_sku_charts:
  "charts (fst (forecast_sku E rnd df p md s)) =
     (case snd (forecast_sku E rnd df p md s) of Inl e \<Rightarrow> [] | Inr fc \<Rightarrow> [(s, fc)])"
  by (auto simp: forecast_sku_def make_future_dataframe_def Let_def charts_Cons charts_Nil split: sum.splits if_splits)

lemma forecast_loop_Inr:
  "snd (forecast_loop E rnd df p md ss acc) = Inr all \<Longrightarrow>
   \<exists>fcs. all = acc @ fcs \<and> list_all2 (\<lambda>s fc. snd (forecast_sku E rnd df p md s) = Inr fc) ss fcs
        \<and> charts (fst (forecast_loop E rnd df p md ss acc)) = zip ss fcs"
proof (induction ss arbitrary: acc)
  case Nil
  then show ?case by (simp add: charts_Nil)
next
  case (Cons s ss)
  obtain evs res where a: "forecast_sku E rnd df p md s = (evs, res)"
    by (cases "forecast_sku E rnd df p md s")
  show ?case
  proof (cases res)
    case (Inl x)
    with a Cons.prems show ?thesis by simp
  next
    case (Inr fc)
    obtain evs' res' where b: "forecast_loop E rnd df p md ss (acc @ [fc]) = (evs', res')"
      by (cases "forecast_loop E rnd df p md ss (acc @ [fc])")
    with Cons.prems a Inr have "snd (forecast_loop E rnd df p md ss (acc @ [fc])) = Inr all"
      by simp
    from Cons.IH [OF this] obtain fcs where f: "all = (acc @ [fc]) @ fcs"
      "list_all2 (\<lambda>s fc. snd (forecast_sku E rnd df p md s) = Inr fc) ss fcs"
      "charts evs' = zip ss fcs" using b by auto
    have c: "charts evs = [(s, fc)]"
      using forecast_sku_charts [of E rnd df p md s] a Inr by simp
    show ?thesis
      apply (rule exI [of _ "fc # fcs"])
      using f a Inr b c by (simp add: charts_append)
  qed
qed

lemma forecast_loop_total:
  "(\<And>s. s \<in> set ss \<Longrightarrow> \<not> isl (snd (forecast_sku E rnd df p md s))) \<Longrightarrow>
   \<not> isl (snd (forecast_loop E rnd df p md ss acc))"
proof (induction ss arbitrary: acc)
  case Nil
  then show ?case by simp
next
  case (Cons s ss)
  obtain evs res where a: "forecast_sku E rnd df p md s = (evs, res)"
    by (cases "forecast_sku E rnd df p md s")
  with Cons.prems [of s] obtain fc where r: "res = Inr fc" by (cases res) auto
  obtain evs' res' where b: "forecast_loop E rnd df p md ss (acc @ [fc]) = (evs', res')"
    by (cases "forecast_loop E rnd df p md ss (acc @ [fc])")
  have "\<not> isl (snd (forecast_loop E rnd df p md ss (acc @ [fc])))"
    using Cons.IH [of "acc @ [fc]"] Cons.prems by simp
  with a r b show ?case by simp
qed

lemma forecast_loop_from_sku:
  "e \<in> set (fst (forecast_loop E rnd df p md ss acc)) \<Longrightarrow>
   \<exists>s \<in> set ss. e \<in> set (fst (forecast_sku E rnd df p md s))
      \<and> set (fst (forecast_sku E rnd df p md s)) \<subseteq> set (fst (forecast_loop E rnd df p md ss acc))"
proof (induction ss arbitrary: acc)
  case Nil
  then show ?case by simp
next
  case (Cons s ss)
  obtain evs res where a: "forecast_sku E rnd df p md s = (evs, res)"
    by (cases "forecast_sku E rnd df p md s")
  show ?case
  proof (cases res)
    case (Inl x)
    with a Cons.prems show ?thesis by simp
  next
    case (Inr fc)
    obtain evs' res' where b: "forecast_loop E rnd df p md ss (acc @ [fc]) = (evs', res')"
      by (cases "forecast_loop E rnd df p md ss (acc @ [fc])")
    from a Inr b have l: "fst (forecast_loop E rnd df p md (s # ss) acc) = evs @ evs'"
      by simp
    from Cons.prems l have "e \<in> set evs \<or> e \<in> set evs'" by simp
    then show ?thesis
    proof
      assume "e \<in> set evs"
      with a l show ?thesis by auto
    next
      assume "e \<in> set evs'"
      with Cons.IH [of "acc @ [fc]"] b obtain s' where
        "s' \<in> set ss" "e \<in> set (fst (forecast_sku E rnd df p md s'))"
        "set (fst (forecast_sku E rnd df p md s')) \<subseteq> set evs'" by auto
      with l show ?thesis by auto
    qed
  qed
qed

lemma unique_from_set: "set (unique_from seen xs) = set xs - set seen"
  by (induction xs arbitrary: seen) auto

lemma unique_from_distinct: "distinct (unique_from seen xs)"
  by (induction xs arbitrary: seen) (auto simp: unique_from_set)

lemma unique_set: "set (unique xs) = set xs"
  by (simp add: unique_def unique_from_set)

lemma unique_distinct: "distinct (unique xs)"
  by (simp add: unique_def unique_from_distinct)

lemma unique_empty: "unique xs = [] \<longleftrightarrow> xs = []"
  using unique_set [of xs] by (metis set_empty)

lemma validate_Some:
  "validate (Some df) =
     (case check_cols required_cols (columns df) of
        Some col \<Rightarrow> ([Error (MissingColumn col)], Inl Stopped)
      | None \<Rightarrow> ([], Inr df))"
  by (simp add: validate_def)

lemma pipeline_Some_events:
  assumes "e \<in> set (events (pipeline E rnd (Some df) p md))"
  shows "e \<in> set (fst (validate (Some df))) \<or> e \<in> set (fst (forecast_all E rnd df p md))
         \<or> (\<exists>fcs. e \<in> set (fst (export E fcs)))"
proof (cases "check_cols required_cols (columns df)")
  case (Some c)
  with assms show ?thesis by (simp add: pipeline_def validate_Some)
next
  case None
  obtain ev3 r3 where f: "forecast_all E rnd df p md = (ev3, r3)"
    by (cases "forecast_all E rnd df p md")
  show ?thesis
  proof (cases r3)
    case (Inl x)
    with None f assms show ?thesis by (simp add: pipeline_def validate_Some)
  next
    case (Inr fcs)
    obtain ev4 r4 where x: "export E fcs = (ev4, r4)"
      by (cases "export E fcs")
    from None f Inr x assms have "e \<in> set ev3 \<or> e \<in> set ev4"
      by (cases r4) (auto simp: pipeline_def validate_Some)
    with f x show ?thesis by (metis fst_conv)
  qed
qed

lemma pipeline_forecast_events:
  assumes "e \<in> set (events (pipeline E rnd (Some df) p md))"
      and k: "is_fit e \<or> is_chart e \<or> is_table e"
  shows "e \<in> set (fst (forecast_all E rnd df p md))
       \<and> set (fst (forecast_all E rnd df p md)) \<subseteq> set (events (pipeline E rnd (Some df) p md))"
proof -
  from k have n2: "e \<notin> set (fst (validate (Some df)))"
    using validate_events [of e "Some df"] by (cases e) auto
  from k have n4: "e \<notin> set (fst (export E fcs))" for fcs
    using export_events [of e E fcs] by (cases e) auto
  from assms(1) n2 n4 pipeline_Some_events [of e E rnd df p md]
  have 1: "e \<in> set (fst (forecast_all E rnd df p md))" by blast
  have v: "check_cols required_cols (columns df) = None"
  proof (cases "check_cols required_cols (columns df)")
    case (Some c)
    with assms(1) k show ?thesis by (auto simp: pipeline_def validate_Some)
  qed simp
  have "set (fst (forecast_all E rnd df p md)) \<subseteq> set (events (pipeline E rnd (Some df) p md))"
    by (auto simp: pipeline_def validate_Some v split: prod.splits sum.splits)
  with 1 show ?thesis by simp
qed

text \<open>The events of the forecasting loop in a render come from the body of the loop,
  and a body that contributed one event contributed all of its events.\<close>

lemma render_sku_events:
  assumes l: "load E up = (ev1, Inr (Some df))"
      and e: "e \<in> set (events (render E rnd up p md))"
      and k: "is_fit e \<or> is_chart e \<or> is_table e"
  shows "\<exists>s \<in> set (unique (map (\<lambda>r. r ''sku'') (rows df))).
           e \<in> set (fst (forecast_sku E rnd df p md s))
         \<and> set (fst (forecast_sku E rnd df p md s)) \<subseteq> set (events (render E rnd up p md))"
proof -
  from k have n1: "e \<notin> set ev1"
    using load_events [of e E up] l by auto
  from l have r: "set (events (render E rnd up p md)) = set ev1 \<union> set (events (pipeline E rnd (Some df) p md))"
    by (simp add: render_def Let_def)
  with e n1 have "e \<in> set (events (pipeline E rnd (Some df) p md))" by simp
  from pipeline_forecast_events [OF this k]
  have a: "e \<in> set (fst (forecast_all E rnd df p md))"
    and b: "set (fst (forecast_all E rnd df p md)) \<subseteq> set (events (render E rnd up p md))"
    using r by auto
  have t: "fst (forecast_all E rnd df p md) =
             Tabs (unique (map (\<lambda>r. r ''sku'') (rows df)))
             # fst (forecast_loop E rnd df p md (unique (map (\<lambda>r. r ''sku'') (rows df))) [])"
  proof (cases "st_tabs (unique (map (\<lambda>r. r ''sku'') (rows df)))")
    case (Inl x)
    with a show ?thesis by (simp add: forecast_all_def)
  next
    case (Inr u)
    then show ?thesis by (simp add: forecast_all_def Let_def split: prod.splits)
  qed
  have c: "set (fst (forecast_loop E rnd df p md (unique (map (\<lambda>r. r ''sku'') (rows df))) []))
            \<subseteq> set (fst (forecast_all E rnd df p md))"
    unfolding t by auto
  from a k have "e \<in> set (fst (forecast_loop E rnd df p md (unique (map (\<lambda>r. r ''sku'') (rows df))) []))"
    unfolding t by auto
  from forecast_loop_from_sku [OF this] b c show ?thesis by blast
qed

lemma forecast_sku_Fit:
  "Fit s' md' h \<in> set (fst (forecast_sku E rnd df p md s)) \<Longrightarrow>
   s' = s \<and> md' = md \<and>
   (\<exists>dates. to_datetime E (map (\<lambda>r. r ''fecha'') (df_sku df s)) = Inr dates
      \<and> length dates = length (df_sku df s)
      \<and> h = zip dates (map (\<lambda>r. r ''demanda_real'') (df_sku df s)))"
  by (auto simp: forecast_sku_def Let_def split: sum.splits if_splits)

lemma forecast_sku_PlotlyChart:
  "PlotlyChart s' fc \<in> set (fst (forecast_sku E rnd df p md s)) \<Longrightarrow>
   s' = s \<and> snd (forecast_sku E rnd df p md s) = Inr fc"
  by (auto simp: forecast_sku_def Let_def split: sum.splits if_splits)

lemma forecast_sku_Dataframe:
  "Dataframe s' shown \<in> set (fst (forecast_sku E rnd df p md s)) \<Longrightarrow>
   s' = s \<and> (\<exists>fc. snd (forecast_sku E rnd df p md s) = Inr fc
              \<and> shown = tail p (map display_cols fc))"
  by (auto simp: forecast_sku_def Let_def split: sum.splits if_splits)

lemma sku_tag [simp]: "sku (tag s r) = s" and ds_tag [simp]: "ds (tag s r) = ds r"
  and yhat_tag [simp]: "yhat (tag s r) = yhat r"
  by (simp_all add: tag_def)

lemma forecast_sku_tagged:
  "snd (forecast_sku E rnd df p md s) = Inr fc \<Longrightarrow> r \<in> set fc \<Longrightarrow> sku r = s"
  by (drule forecast_sku_Inr) auto

lemma set_map_filter_fst: "set (List.map_filter fst h) = {d. Some d \<in> fst ` set h}"
proof (induction h)
  case Nil
  then show ?case by (simp add: map_filter_simps)
next
  case (Cons x h)
  then show ?case by (cases "fst x") (auto simp: map_filter_simps)
qed

lemma history_dates_set:
  "Prophet_fit E md h = Inr m \<Longrightarrow> set (history_dates m) = {d. Some d \<in> fst ` set h}"
  using set_map_filter_fst [of h] by (auto simp: Prophet_fit_def split: sum.splits)

lemma history_dates_sorted:
  "Prophet_fit E md h = Inr m \<Longrightarrow> sorted (history_dates m) \<and> distinct (history_dates m)"
  by (auto simp: Prophet_fit_def split: sum.splits)

lemma sorted_le_last: "sorted xs \<Longrightarrow> x \<in> set xs \<Longrightarrow> x \<le> last xs"
  by (induction xs) (auto split: if_splits)

lemma length_predict [simp]: "length (predict E m rnd future) = length future"
  by (simp add: predict_def)

lemma ds_predict [simp]: "map ds (predict E m rnd future) = future"
  by (simp add: predict_def o_def)

lemma ds_display_cols [simp]: "ds (display_cols r) = ds r"
  by (simp add: display_cols_def)

lemma tail_append: "length ys = n \<Longrightarrow> tail n (xs @ ys) = ys"
  by (simp add: tail_def)

text \<open>The forecast table of one SKU: history first, then the horizon.\<close>

lemma forecast_sku_shape:
  assumes "snd (forecast_sku E rnd df p md s) = Inr fc"
  shows "\<exists>h hist. Fit s md h \<in> set (fst (forecast_sku E rnd df p md s))
         \<and> hist \<noteq> [] \<and> sorted hist \<and> distinct hist \<and> set hist = {d. Some d \<in> fst ` set h}
         \<and> map ds fc = hist @ map (\<lambda>i. last hist + int i) [1..<Suc p]
         \<and> (\<exists>dates. to_datetime E (map (\<lambda>r. r ''fecha'') (df_sku df s)) = Inr dates
               \<and> length dates = length (df_sku df s)
               \<and> h = zip dates (map (\<lambda>r. r ''demanda_real'') (df_sku df s)))"
proof -
  from forecast_sku_Inr [OF assms] obtain dates m where
    d: "to_datetime E (map (\<lambda>r. r ''fecha'') (df_sku df s)) = Inr dates"
       "length dates = length (df_sku df s)"
    and m: "Prophet_fit E md (zip dates (map (\<lambda>r. r ''demanda_real'') (df_sku df s))) = Inr m"
    and n: "history_dates m \<noteq> []"
    and fc: "fc = map (tag s) (predict E m rnd
                   (history_dates m @ map (\<lambda>i. last (history_dates m) + int i) [1..<Suc p]))"
    and ev: "fst (forecast_sku E rnd df p md s) =
              [Fit s md (zip dates (map (\<lambda>r. r ''demanda_real'') (df_sku df s))),
               PlotlyChart s fc, ComponentsPlot s,
               Dataframe s (tail p (map display_cols fc))]"
    by blast
  have "map ds fc = history_dates m @ map (\<lambda>i. last (history_dates m) + int i) [1..<Suc p]"
    unfolding fc by (simp add: o_def predict_def)
  with d m n ev history_dates_set [OF m] history_dates_sorted [OF m]
  show ?thesis
    by (intro exI [of _ "zip dates (map (\<lambda>r. r ''demanda_real'') (df_sku df s))"]
          exI [of _ "history_dates m"]) simp
qed

lemma load_no_charts: "load E up = (ev1, res) \<Longrightarrow> charts ev1 = [] \<and> sheets ev1 = [] \<and> filter is_download ev1 = []"
  by (auto simp: load_def Let_def charts_Cons charts_Nil sheets_Cons sheets_Nil
        split: option.splits sum.splits if_splits)

lemma loop_no_sheets:
  "sheets (fst (forecast_loop E rnd df p md ss acc)) = []
   \<and> filter is_download (fst (forecast_loop E rnd df p md ss acc)) = []"
proof -
  have "sheet_of e = None \<and> \<not> is_download e"
    if "e \<in> set (fst (forecast_loop E rnd df p md ss acc))" for e
    using forecast_loop_events [OF that] by (cases e) auto
  then show ?thesis by (simp add: sheets_none filter_empty_conv)
qed

lemma export_shape:
  "all \<noteq> [] \<Longrightarrow>
   charts (fst (export E all)) = []
   \<and> sheets (fst (export E all)) = [to_excel (concat all)]
   \<and> (case snd (export E all) of
        Inl e \<Rightarrow> write_xlsx E (to_excel (concat all)) = Inl e
                 \<and> filter is_download (fst (export E all)) = []
      | Inr u \<Rightarrow> (\<exists>x. write_xlsx E (to_excel (concat all)) = Inr x
                 \<and> filter is_download (fst (export E all)) =
                     [DownloadButton
                        \<lparr>data = x, file_name = ''forecast_all_skus.xlsx'',
                         mime = ''application/vnd.openxmlformats-officedocument.spreadsheetml.sheet''\<rparr>]))"
  by (auto simp: export_def pd_concat_def charts_Cons charts_Nil sheets_Cons sheets_Nil split: sum.splits)

text \<open>A render whose forecasting loop went through.\<close>

lemma render_forecasts:
  assumes l: "load E up = (ev1, Inr (Some df))"
      and v: "check_cols required_cols (columns df) = None"
      and f: "snd (forecast_all E rnd df p md) = Inr all"
  shows "all \<noteq> []
       \<and> list_all2 (\<lambda>s fc. snd (forecast_sku E rnd df p md s) = Inr fc)
            (unique (map (\<lambda>r. r ''sku'') (rows df))) all
       \<and> charts (events (render E rnd up p md)) = zip (unique (map (\<lambda>r. r ''sku'') (rows df))) all
       \<and> sheets (events (render E rnd up p md)) = [to_excel (concat all)]
       \<and> filter is_download (events (render E rnd up p md)) = filter is_download (fst (export E all))
       \<and> outcome (render E rnd up p md) = (case snd (export E all) of Inl e \<Rightarrow> Raised e | Inr u \<Rightarrow> Completed)"
proof -
  let ?skus = "unique (map (\<lambda>r. r ''sku'') (rows df))"
  from f have t: "st_tabs ?skus = Inr ()"
    by (cases "st_tabs ?skus") (simp_all add: forecast_all_def)
  then have ne: "?skus \<noteq> []" by (auto simp: st_tabs_def split: if_splits)
  obtain evs res where lp: "forecast_loop E rnd df p md ?skus [] = (evs, res)"
    by (cases "forecast_loop E rnd df p md ?skus []")
  with f t have fa: "forecast_all E rnd df p md = (Tabs ?skus # evs, Inr all)"
    by (simp add: forecast_all_def Let_def)
  from fa lp t have "snd (forecast_loop E rnd df p md ?skus []) = Inr all"
    by (simp add: forecast_all_def Let_def)
  from forecast_loop_Inr [OF this] lp
  have la: "list_all2 (\<lambda>s fc. snd (forecast_sku E rnd df p md s) = Inr fc) ?skus all"
    and ch: "charts evs = zip ?skus all" by auto
  from la ne have an: "all \<noteq> []" by (auto simp: list_all2_conv_all_nth)
  obtain ev4 r4 where x: "export E all = (ev4, r4)" by (cases "export E all")
  have ev: "events (render E rnd up p md) = ev1 @ Tabs ?skus # evs @ ev4"
    and oc: "outcome (render E rnd up p md) = (case r4 of Inl e \<Rightarrow> Raised e | Inr u \<Rightarrow> Completed)"
    using l v fa x by (cases r4; simp add: render_def pipeline_def validate_Some)+
  from export_shape [OF an, of E] x have c4: "charts ev4 = []" and s4: "sheets ev4 = [to_excel (concat all)]"
    by simp_all
  from loop_no_sheets [of E rnd df p md ?skus "[]"] lp
  have s3: "sheets evs = []" and d3: "filter is_download evs = []" by simp_all
  from load_no_charts [OF l] have c1: "charts ev1 = []" "sheets ev1 = []" "filter is_download ev1 = []"
    by simp_all
  show ?thesis
    using an la ch c4 s4 s3 d3 c1 x oc
    by (simp add: ev charts_append charts_Cons sheets_append sheets_Cons)
qed

lemma forecast_all_total:
  assumes "rows df \<noteq> []"
      and "\<forall>s \<in> set (map (\<lambda>r. r ''sku'') (rows df)). \<not> isl (snd (forecast_sku E rnd df p md s))"
  shows "\<exists>all. snd (forecast_all E rnd df p md) = Inr all"
proof -
  let ?skus = "unique (map (\<lambda>r. r ''sku'') (rows df))"
  from assms(1) have "?skus \<noteq> []" by (simp add: unique_empty)
  then have t: "st_tabs ?skus = Inr ()" by (simp add: st_tabs_def)
  have "\<not> isl (snd (forecast_loop E rnd df p md ?skus []))"
    using assms(2) by (intro forecast_loop_total) (auto simp: unique_set)
  then obtain all where "snd (forecast_loop E rnd df p md ?skus []) = Inr all"
    by (cases "snd (forecast_loop E rnd df p md ?skus [])") auto
  with t show ?thesis by (auto simp: forecast_all_def Let_def split: prod.splits)
qed



lemma map_filter_fst_zip:
  assumes "length dates = length ys" and "None \<notin> set dates"
  shows "List.map_filter fst (zip dates ys) = map the dates"
proof -
  have "filter (\<lambda>x. fst x \<noteq> None) (zip dates ys) = zip dates ys"
  proof -
    have "fst x \<noteq> None" if "x \<in> set (zip dates ys)" for x
    proof -
      from that have "fst x \<in> set dates"
        by (metis prod.collapse set_zip_leftD)
      with assms(2) show ?thesis by (cases "fst x") auto
    qed
    then show ?thesis by (simp add: filter_id_conv)
  qed
  then have "List.map_filter fst (zip dates ys) = map the (map fst (zip dates ys))"
    by (simp add: map_filter_def)
  with assms(1) show ?thesis by simp
qed

lemma distinct_the:
  assumes "distinct dates" and "None \<notin> set dates"
  shows "distinct (map the dates)"
proof -
  have "inj_on the (set dates)"
    using assms(2) by (auto simp: inj_on_def) (metis option.collapse)
  with assms(1) show ?thesis by (simp add: distinct_map)
qed

text \<open>The body of the loop goes through when the dates parse, at least one of them is
  a date, and the fit succeeds; the forecast table then has one row per distinct date
  and one per day of the horizon.\<close>

lemma forecast_sku_ok:
  assumes d: "to_datetime E (map (\<lambda>r. r ''fecha'') (df_sku df s)) = Inr dates"
      and n: "length dates = length (df_sku df s)"
      and f: "\<not> isl (fit E md (zip dates (map (\<lambda>r. r ''demanda_real'') (df_sku df s))))"
      and e: "List.map_filter fst (zip dates (map (\<lambda>r. r ''demanda_real'') (df_sku df s))) \<noteq> []"
  shows "\<exists>fc. snd (forecast_sku E rnd df p md s) = Inr fc
            \<and> length fc = length (remdups (List.map_filter fst
                  (zip dates (map (\<lambda>r. r ''demanda_real'') (df_sku df s))))) + p"
proof -
  let ?h = "zip dates (map (\<lambda>r. r ''demanda_real'') (df_sku df s))"
  define hist where "hist = sort (remdups (List.map_filter fst ?h))"
  from f obtain m where m: "fit E md ?h = Inr m"
    by (cases "fit E md ?h") auto
  have pf: "Prophet_fit E md ?h = Inr \<lparr>history_dates = hist, params = m\<rparr>"
    by (simp add: Prophet_fit_def m hist_def)
  have hn: "hist \<noteq> []"
  proof
    assume "hist = []"
    then have "set (sort (remdups (List.map_filter fst ?h))) = {}"
      by (simp add: hist_def)
    then have "List.map_filter fst ?h = []" by simp
    with e show False by simp
  qed
  have mk: "make_future_dataframe \<lparr>history_dates = hist, params = m\<rparr> p
              = Inr (hist @ map (\<lambda>i. last hist + int i) [1..<Suc p])"
    using hn by (simp add: make_future_dataframe_def del: upt_Suc)
  have "snd (forecast_sku E rnd df p md s)
          = Inr (map (tag s) (predict E \<lparr>history_dates = hist, params = m\<rparr> rnd
                   (hist @ map (\<lambda>i. last hist + int i) [1..<Suc p])))"
    unfolding forecast_sku_def d Let_def
    by (simp only: n pf mk sum.case if_False snd_conv simp_thms)
  moreover have "length (map (tag s) (predict E \<lparr>history_dates = hist, params = m\<rparr> rnd
                   (hist @ map (\<lambda>i. last hist + int i) [1..<Suc p]))) = length hist + p"
    by (simp add: predict_def del: upt_Suc)
  moreover have "length hist = length (remdups (List.map_filter fst ?h))"
    by (simp add: hist_def)
  ultimately show ?thesis by simp
qed

subsection \<open>Two renders that differ in what they draw at random\<close>

lemma point_tables_append: "point_tables (xs @ ys) = point_tables xs @ point_tables ys"
  by (simp add: point_tables_def charts_append)

lemma point_tables_none:
  "(\<And>e. e \<in> set evs \<Longrightarrow> chart_of e = None) \<Longrightarrow> point_tables evs = []"
  by (simp add: point_tables_def charts_none)

lemma points_predict:
  "points (map (tag s) (predict E m rnd future)) = map (\<lambda>d. (d, point E (params m) d)) future"
  by (simp add: points_def predict_def tag_def o_def)

text \<open>The body of the loop under two random draws.\<close>

lemma forecast_sku_rnd:
  "isl (snd (forecast_sku E r1 df p md s)) = isl (snd (forecast_sku E r2 df p md s))
   \<and> point_tables (fst (forecast_sku E r1 df p md s)) = point_tables (fst (forecast_sku E r2 df p md s))
   \<and> filter is_fit (fst (forecast_sku E r1 df p md s)) = filter is_fit (fst (forecast_sku E r2 df p md s))"
proof (cases "to_datetime E (map (\<lambda>r. r ''fecha'') (df_sku df s))")
  case (Inl e)
  then show ?thesis by (simp add: forecast_sku_def)
next
  case d: (Inr dates)
  show ?thesis
  proof (cases "length dates = length (df_sku df s)")
    case False
    with d show ?thesis by (simp add: forecast_sku_def)
  next
    case n: True
    let ?h = "zip dates (map (\<lambda>r. r ''demanda_real'') (df_sku df s))"
    show ?thesis
    proof (cases "Prophet_fit E md ?h")
      case (Inl e)
      with d n show ?thesis by (simp add: forecast_sku_def)
    next
      case m: (Inr m)
      show ?thesis
      proof (cases "make_future_dataframe m p")
        case (Inl e)
        with d n m show ?thesis by (simp add: forecast_sku_def Let_def)
      next
        case (Inr future)
        with d n m show ?thesis
          by (simp add: forecast_sku_def Let_def point_tables_def charts_Cons charts_Nil points_predict)
      qed
    qed
  qed
qed

lemma forecast_loop_rnd:
  "isl (snd (forecast_loop E r1 df p md ss acc1)) = isl (snd (forecast_loop E r2 df p md ss acc2))
   \<and> point_tables (fst (forecast_loop E r1 df p md ss acc1))
       = point_tables (fst (forecast_loop E r2 df p md ss acc2))
   \<and> filter is_fit (fst (forecast_loop E r1 df p md ss acc1))
       = filter is_fit (fst (forecast_loop E r2 df p md ss acc2))"
proof (induction ss arbitrary: acc1 acc2)
  case Nil
  show ?case by simp
next
  case (Cons s ss)
  obtain e1 x1 where a1: "forecast_sku E r1 df p md s = (e1, x1)"
    by (cases "forecast_sku E r1 df p md s")
  obtain e2 x2 where a2: "forecast_sku E r2 df p md s = (e2, x2)"
    by (cases "forecast_sku E r2 df p md s")
  from forecast_sku_rnd [of E r1 df p md s r2] a1 a2
  have same: "isl x1 = isl x2" "point_tables e1 = point_tables e2" "filter is_fit e1 = filter is_fit e2"
    by simp_all
  show ?case
  proof (cases x1)
    case (Inl err)
    with same(1) obtain err' where "x2 = Inl err'" by (cases x2) auto
    with Inl a1 a2 same show ?thesis by simp
  next
    case (Inr fc1)
    with same(1) obtain fc2 where x2: "x2 = Inr fc2" by (cases x2) auto
    obtain e1' y1 where b1: "forecast_loop E r1 df p md ss (acc1 @ [fc1]) = (e1', y1)"
      by (cases "forecast_loop E r1 df p md ss (acc1 @ [fc1])")
    obtain e2' y2 where b2: "forecast_loop E r2 df p md ss (acc2 @ [fc2]) = (e2', y2)"
      by (cases "forecast_loop E r2 df p md ss (acc2 @ [fc2])")
    from Cons.IH [of "acc1 @ [fc1]" "acc2 @ [fc2]"] b1 b2
    have "isl y1 = isl y2" "point_tables e1' = point_tables e2'" "filter is_fit e1' = filter is_fit e2'"
      by simp_all
    with Inr x2 a1 a2 b1 b2 same show ?thesis
      by (simp add: point_tables_append)
  qed
qed

lemma forecast_all_rnd:
  "isl (snd (forecast_all E r1 df p md)) = isl (snd (forecast_all E r2 df p md))
   \<and> point_tables (fst (forecast_all E r1 df p md)) = point_tables (fst (forecast_all E r2 df p md))
   \<and> filter is_fit (fst (forecast_all E r1 df p md)) = filter is_fit (fst (forecast_all E r2 df p md))"
proof (cases "st_tabs (unique (map (\<lambda>r. r ''sku'') (rows df)))")
  case (Inl e)
  then show ?thesis by (simp add: forecast_all_def)
next
  case (Inr u)
  let ?skus = "unique (map (\<lambda>r. r ''sku'') (rows df))"
  obtain e1 y1 where b1: "forecast_loop E r1 df p md ?skus [] = (e1, y1)"
    by (cases "forecast_loop E r1 df p md ?skus []")
  obtain e2 y2 where b2: "forecast_loop E r2 df p md ?skus [] = (e2, y2)"
    by (cases "forecast_loop E r2 df p md ?skus []")
  from forecast_loop_rnd [of E r1 df p md ?skus "[]" r2 "[]"] b1 b2
  have "isl y1 = isl y2" "point_tables e1 = point_tables e2" "filter is_fit e1 = filter is_fit e2"
    by simp_all
  with Inr b1 b2 show ?thesis
    by (simp add: forecast_all_def Let_def point_tables_def charts_Cons)
qed

lemma export_no_forecast:
  "point_tables (fst (export E all)) = [] \<and> filter is_fit (fst (export E all)) = []"
proof -
  have "chart_of e = None \<and> \<not> is_fit e" if "e \<in> set (fst (export E all))" for e
    using export_events [OF that] by (cases e) auto
  then show ?thesis by (simp add: point_tables_none filter_empty_conv)
qed

lemma pipeline_rnd:
  "point_tables (events (pipeline E r1 b p md)) = point_tables (events (pipeline E r2 b p md))
   \<and> filter is_fit (events (pipeline E r1 b p md)) = filter is_fit (events (pipeline E r2 b p md))"
proof -
  obtain ev2 v where v: "validate b = (ev2, v)" by (cases "validate b")
  show ?thesis
  proof (cases v)
    case (Inl h)
    with v show ?thesis by (simp add: pipeline_def)
  next
    case (Inr df)
    obtain e1 y1 where f1: "forecast_all E r1 df p md = (e1, y1)"
      by (cases "forecast_all E r1 df p md")
    obtain e2 y2 where f2: "forecast_all E r2 df p md = (e2, y2)"
      by (cases "forecast_all E r2 df p md")
    from forecast_all_rnd [of E r1 df p md r2] f1 f2
    have same: "isl y1 = isl y2" "point_tables e1 = point_tables e2" "filter is_fit e1 = filter is_fit e2"
      by simp_all
    have one: "point_tables (events (pipeline E r b p md)) = point_tables ev2 @ point_tables e
               \<and> filter is_fit (events (pipeline E r b p md)) = filter is_fit ev2 @ filter is_fit e"
      if "forecast_all E r df p md = (e, y)" for r e y
    proof (cases y)
      case (Inl err)
      with v Inr that show ?thesis by (simp add: pipeline_def point_tables_append)
    next
      case all: (Inr all)
      obtain ev4 r4 where x: "export E all = (ev4, r4)" by (cases "export E all")
      from export_no_forecast [of E all] x
      have "point_tables ev4 = []" "filter is_fit ev4 = []" by simp_all
      with v Inr that all x show ?thesis
        by (cases r4) (simp_all add: pipeline_def point_tables_append)
    qed
    from one [OF f1] one [OF f2] same show ?thesis by simp
  qed
qed

subsection \<open>A render of the sample instance on a table of two SKUs\<close>

lemma small_load:
  "load (sample_ext small_table) (Some (csv_file 2048))
     = ([ReadCsv (csv_file 2048), Success Loaded], Inr (Some small_table))"
  by (simp add: load_def sample_ext_def csv_file_def MAX_SIZE_MB_def endswith_def)

lemma small_df_sku_A:
  "df_sku small_table (Str ''A'') = [obs (Str ''A'') (Timestamp 1) (Num 10), obs (Str ''A'') (Timestamp 2) (Num 12)]"
  by (simp add: df_sku_def small_table_def obs_def)

lemma small_df_sku_B:
  "df_sku small_table (Str ''B'') = [obs (Str ''B'') (Timestamp 1) (Num 7), obs (Str ''B'') (Timestamp 2) (Num 9)]"
  by (simp add: df_sku_def small_table_def obs_def)

lemma small_skus: "unique (map (\<lambda>r. r ''sku'') (rows small_table)) = [Str ''A'', Str ''B'']"
  by (simp add: unique_def small_table_def obs_def)

lemma small_forecast_A:
  "forecast_sku (sample_ext small_table) w small_table 7 additive (Str ''A'') =
     ([Fit (Str ''A'') additive [(Some 1, Num 10), (Some 2, Num 12)],
       PlotlyChart (Str ''A'') (flat (Str ''A'') 12 w [1, 2, 3, 4, 5, 6, 7, 8, 9]),
       ComponentsPlot (Str ''A''),
       Dataframe (Str ''A'') (map display_cols (flat (Str ''A'') 12 w [3, 4, 5, 6, 7, 8, 9]))],
      Inr (flat (Str ''A'') 12 w [1, 2, 3, 4, 5, 6, 7, 8, 9]))"
  by (simp add: forecast_sku_def small_df_sku_A obs_def sample_ext_def sample_to_datetime_def
        Prophet_fit_def sample_fit_def make_future_dataframe_def predict_def tag_def tail_def
        flat_def map_filter_def upt_conv_Cons Let_def)

lemma small_forecast_B:
  "forecast_sku (sample_ext small_table) w small_table 7 additive (Str ''B'') =
     ([Fit (Str ''B'') additive [(Some 1, Num 7), (Some 2, Num 9)],
       PlotlyChart (Str ''B'') (flat (Str ''B'') 9 w [1, 2, 3, 4, 5, 6, 7, 8, 9]),
       ComponentsPlot (Str ''B''),
       Dataframe (Str ''B'') (map display_cols (flat (Str ''B'') 9 w [3, 4, 5, 6, 7, 8, 9]))],
      Inr (flat (Str ''B'') 9 w [1, 2, 3, 4, 5, 6, 7, 8, 9]))"
  by (simp add: forecast_sku_def small_df_sku_B obs_def sample_ext_def sample_to_datetime_def
        Prophet_fit_def sample_fit_def make_future_dataframe_def predict_def tag_def tail_def
        flat_def map_filter_def upt_conv_Cons Let_def)

lemma small_pipeline:
  "pipeline (sample_ext small_table) w (Some small_table) 7 additive =
     \<lparr>events =
        [Tabs [Str ''A'', Str ''B''],
         Fit (Str ''A'') additive [(Some 1, Num 10), (Some 2, Num 12)],
         PlotlyChart (Str ''A'') (flat (Str ''A'') 12 w [1, 2, 3, 4, 5, 6, 7, 8, 9]),
         ComponentsPlot (Str ''A''),
         Dataframe (Str ''A'') (map display_cols (flat (Str ''A'') 12 w [3, 4, 5, 6, 7, 8, 9])),
         Fit (Str ''B'') additive [(Some 1, Num 7), (Some 2, Num 9)],
         PlotlyChart (Str ''B'') (flat (Str ''B'') 9 w [1, 2, 3, 4, 5, 6, 7, 8, 9]),
         ComponentsPlot (Str ''B''),
         Dataframe (Str ''B'') (map display_cols (flat (Str ''B'') 9 w [3, 4, 5, 6, 7, 8, 9])),
         ToExcel (to_excel (flat (Str ''A'') 12 w [1, 2, 3, 4, 5, 6, 7, 8, 9]
                            @ flat (Str ''B'') 9 w [1, 2, 3, 4, 5, 6, 7, 8, 9])),
         DownloadButton
           \<lparr>data = ''dsyhatyhat_loweryhat_uppersku'',
            file_name = ''forecast_all_skus.xlsx'',
            mime = ''application/vnd.openxmlformats-officedocument.spreadsheetml.sheet''\<rparr>,
         Success Done],
      outcome = Completed\<rparr>"
proof -
  have v: "validate (Some small_table) = ([], Inr small_table)"
    by (simp add: validate_def required_cols_def small_table_def)
  have f: "forecast_all (sample_ext small_table) w small_table 7 additive =
     ([Tabs [Str ''A'', Str ''B''],
       Fit (Str ''A'') additive [(Some 1, Num 10), (Some 2, Num 12)],
       PlotlyChart (Str ''A'') (flat (Str ''A'') 12 w [1, 2, 3, 4, 5, 6, 7, 8, 9]),
       ComponentsPlot (Str ''A''),
       Dataframe (Str ''A'') (map display_cols (flat (Str ''A'') 12 w [3, 4, 5, 6, 7, 8, 9])),
       Fit (Str ''B'') additive [(Some 1, Num 7), (Some 2, Num 9)],
       PlotlyChart (Str ''B'') (flat (Str ''B'') 9 w [1, 2, 3, 4, 5, 6, 7, 8, 9]),
       ComponentsPlot (Str ''B''),
       Dataframe (Str ''B'') (map display_cols (flat (Str ''B'') 9 w [3, 4, 5, 6, 7, 8, 9]))],
      Inr [flat (Str ''A'') 12 w [1, 2, 3, 4, 5, 6, 7, 8, 9],
           flat (Str ''B'') 9 w [1, 2, 3, 4, 5, 6, 7, 8, 9]])"
    by (simp add: forecast_all_def small_skus st_tabs_def small_forecast_A small_forecast_B)
  have x: "export (sample_ext small_table)
             [flat (Str ''A'') 12 w [1, 2, 3, 4, 5, 6, 7, 8, 9],
              flat (Str ''B'') 9 w [1, 2, 3, 4, 5, 6, 7, 8, 9]] =
     ([ToExcel (to_excel (flat (Str ''A'') 12 w [1, 2, 3, 4, 5, 6, 7, 8, 9]
                            @ flat (Str ''B'') 9 w [1, 2, 3, 4, 5, 6, 7, 8, 9])),
       DownloadButton
           \<lparr>data = ''dsyhatyhat_loweryhat_uppersku'',
            file_name = ''forecast_all_skus.xlsx'',
            mime = ''application/vnd.openxmlformats-officedocument.spreadsheetml.sheet''\<rparr>,
       Success Done], Inr ())"
    by (simp add: export_def pd_concat_def sample_ext_def to_excel_def forecast_columns_def)
  show ?thesis
    by (simp add: pipeline_def v f x)
qed

lemma small_render:
  "render (sample_ext small_table) w (Some (csv_file 2048)) 7 additive =
     \<lparr>events =
        [ReadCsv (csv_file 2048), Success Loaded,
         Tabs [Str ''A'', Str ''B''],
         Fit (Str ''A'') additive [(Some 1, Num 10), (Some 2, Num 12)],
         PlotlyChart (Str ''A'') (flat (Str ''A'') 12 w [1, 2, 3, 4, 5, 6, 7, 8, 9]),
         ComponentsPlot (Str ''A''),
         Dataframe (Str ''A'') (map display_cols (flat (Str ''A'') 12 w [3, 4, 5, 6, 7, 8, 9])),
         Fit (Str ''B'') additive [(Some 1, Num 7), (Some 2, Num 9)],
         PlotlyChart (Str ''B'') (flat (Str ''B'') 9 w [1, 2, 3, 4, 5, 6, 7, 8, 9]),
         ComponentsPlot (Str ''B''),
         Dataframe (Str ''B'') (map display_cols (flat (Str ''B'') 9 w [3, 4, 5, 6, 7, 8, 9])),
         ToExcel (to_excel (flat (Str ''A'') 12 w [1, 2, 3, 4, 5, 6, 7, 8, 9]
                            @ flat (Str ''B'') 9 w [1, 2, 3, 4, 5, 6, 7, 8, 9])),
         DownloadButton
           \<lparr>data = ''dsyhatyhat_loweryhat_uppersku'',
            file_name = ''forecast_all_skus.xlsx'',
            mime = ''application/vnd.openxmlformats-officedocument.spreadsheetml.sheet''\<rparr>,
         Success Done],
      outcome = Completed\<rparr>"
  by (simp add: render_def small_load small_pipeline)

subsection \<open>The example dataset\<close>




subsection \<open>Per-entity forecasts\<close>

text \<open>C4.  Every fit of a render is made for one SKU, with the selected seasonality
  mode, on the dates and demands of exactly the rows of the loaded table whose \<^verbatim>\<open>sku\<close>
  equals it, in their order; those rows are rows of the table with that SKU; every
  row of the forecast table charted for a SKU is the forecast of that SKU's rows
  and carries that SKU in its \<^verbatim>\<open>sku\<close> column; and the body of the loop for a SKU yields
  the same on any two tables that have the same rows for it, whatever their other
  rows.\<close>

theorem fit_uses_own_observations:
  assumes "load E up = (ev1, Inr (Some df))"
  shows "(Fit s md' h \<in> set (events (render E rnd up p md)) \<longrightarrow>
            md' = md \<and>
            (\<exists>dates. to_datetime E (map (\<lambda>r. r ''fecha'') (df_sku df s)) = Inr dates
               \<and> h = zip dates (map (\<lambda>r. r ''demanda_real'') (df_sku df s))))
       \<and> (\<forall>r \<in> set (df_sku df s). r \<in> set (rows df) \<and> pd_eq (r ''sku'') s)
       \<and> (PlotlyChart s fc \<in> set (events (render E rnd up p md)) \<longrightarrow>
            snd (forecast_sku E rnd df p md s) = Inr fc \<and> (\<forall>r \<in> set fc. sku r = s))
       \<and> (df_sku df' s = df_sku df s \<longrightarrow>
            forecast_sku E rnd df' p md s = forecast_sku E rnd df p md s)"
proof (intro conjI impI)
  assume a: "Fit s md' h \<in> set (events (render E rnd up p md))"
  from render_sku_events [OF assms a] obtain s' where
    "Fit s md' h \<in> set (fst (forecast_sku E rnd df p md s'))" by auto
  from forecast_sku_Fit [OF this]
  show "md' = md" 
    and "\<exists>dates. to_datetime E (map (\<lambda>r. r ''fecha'') (df_sku df s)) = Inr dates
               \<and> h = zip dates (map (\<lambda>r. r ''demanda_real'') (df_sku df s))"
    by auto
next
  show "\<forall>r \<in> set (df_sku df s). r \<in> set (rows df) \<and> pd_eq (r ''sku'') s"
    by (simp add: df_sku_def)
next
  assume a: "PlotlyChart s fc \<in> set (events (render E rnd up p md))"
  from render_sku_events [OF assms a] obtain s' where
    "PlotlyChart s fc \<in> set (fst (forecast_sku E rnd df p md s'))" by auto
  from forecast_sku_PlotlyChart [OF this]
  show b: "snd (forecast_sku E rnd df p md s) = Inr fc" by simp
  show "\<forall>r \<in> set fc. sku r = s"
    using forecast_sku_tagged [OF b] by blast
next
  assume a: "df_sku df' s = df_sku df s"
  show "forecast_sku E rnd df' p md s = forecast_sku E rnd df p md s"
    unfolding forecast_sku_def a by (rule refl)
qed

theorem fit_uses_own_observations_witness:
  "Fit (Str ''A'') additive [(Some 1, Num 10), (Some 2, Num 12)]
     \<in> set (events (render (sample_ext small_table) 1 (Some (csv_file 2048)) 7 additive))
   \<and> to_datetime (sample_ext small_table) (map (\<lambda>r. r ''fecha'') (df_sku small_table (Str ''A'')))
       = Inr [Some 1, Some 2]
   \<and> PlotlyChart (Str ''A'') (flat (Str ''A'') 12 1 [1, 2, 3, 4, 5, 6, 7, 8, 9])
     \<in> set (events (render (sample_ext small_table) 1 (Some (csv_file 2048)) 7 additive))
   \<and> list_all (\<lambda>r. sku r = Str ''A'') (flat (Str ''A'') 12 1 [1, 2, 3, 4, 5, 6, 7, 8, 9])
   \<and> forecast_sku (sample_ext small_table) 1
        (small_table\<lparr>rows := df_sku small_table (Str ''A'')\<rparr>) 7 additive (Str ''A'')
     = forecast_sku (sample_ext small_table) 1 small_table 7 additive (Str ''A'')"
proof -
  have d: "df_sku (small_table\<lparr>rows := df_sku small_table (Str ''A'')\<rparr>) (Str ''A'')
             = df_sku small_table (Str ''A'')"
    by (simp add: df_sku_def)
  have t: "to_datetime (sample_ext small_table) (map (\<lambda>r. r ''fecha'') (df_sku small_table (Str ''A'')))
       = Inr [Some 1, Some 2]"
    by (simp add: small_df_sku_A sample_ext_def sample_to_datetime_def obs_def)
  show ?thesis
    using fit_uses_own_observations [OF small_load, of "Str ''A''" additive
        "[(Some 1, Num 10), (Some 2, Num 12)]" 1 7 additive
        "flat (Str ''A'') 12 1 [1, 2, 3, 4, 5, 6, 7, 8, 9]"
        "small_table\<lparr>rows := df_sku small_table (Str ''A'')\<rparr>"] d t
    by (simp add: small_render list_all_iff)
qed

text \<open>C5.  Every table shown under a chart, in a render with horizon \<open>H\<close>, has exactly
  \<open>H\<close> rows: they are the last \<open>H\<close> rows of the forecast table charted for that SKU,
  each shown with the timestamp, the point estimate, the lower and the upper bound of
  that forecast row.  The rows before them carry the timestamps of the history that
  was fitted, and every shown row has a timestamp after every timestamp of that
  history: only future periods are shown.\<close>

theorem displayed_table_is_future_tail:
  assumes "load E up = (ev1, Inr (Some df))"
      and "Dataframe s shown \<in> set (events (render E rnd up H md))"
  shows "length shown = H
       \<and> (\<exists>fc h. PlotlyChart s fc \<in> set (events (render E rnd up H md))
              \<and> Fit s md h \<in> set (events (render E rnd up H md))
              \<and> H \<le> length fc
              \<and> shown = map (\<lambda>r. \<lparr>ds = ds r, yhat = yhat r, yhat_lower = yhat_lower r,
                                    yhat_upper = yhat_upper r\<rparr>) (drop (length fc - H) fc)
              \<and> (\<forall>r \<in> set (take (length fc - H) fc). Some (ds r) \<in> fst ` set h)
              \<and> (\<forall>r \<in> set shown. \<forall>d. Some d \<in> fst ` set h \<longrightarrow> d < ds r))"
proof -
  have k: "is_fit (Dataframe s shown) \<or> is_chart (Dataframe s shown) \<or> is_table (Dataframe s shown)"
    by simp
  from render_sku_events [OF assms(1) assms(2) k] obtain s' where
    s': "s' \<in> set (unique (map (\<lambda>r. r ''sku'') (rows df)))"
    and "Dataframe s shown \<in> set (fst (forecast_sku E rnd df H md s'))"
    and sub: "set (fst (forecast_sku E rnd df H md s')) \<subseteq> set (events (render E rnd up H md))"
    by blast
  from forecast_sku_Dataframe [OF this(2)] obtain fc where
    [simp]: "s' = s" and fc: "snd (forecast_sku E rnd df H md s) = Inr fc"
    and shown: "shown = tail H (map display_cols fc)" by blast
  from forecast_sku_Inr [OF fc] have chart: "PlotlyChart s fc \<in> set (fst (forecast_sku E rnd df H md s))"
    by auto
  from forecast_sku_shape [OF fc] obtain h hist where
    fit: "Fit s md h \<in> set (fst (forecast_sku E rnd df H md s))"
    and hist: "hist \<noteq> []" "sorted hist" "set hist = {d. Some d \<in> fst ` set h}"
    and ds: "map ds fc = hist @ map (\<lambda>i. last hist + int i) [1..<Suc H]" by blast
  have in_render: "e \<in> set (events (render E rnd up H md))"
    if "e \<in> set (fst (forecast_sku E rnd df H md s))" for e
    using that sub by auto
  from ds have len: "length fc = length hist + H"
    by (metis length_append length_map length_upt diff_Suc_1 add_diff_cancel_left' plus_1_eq_Suc)
  have 1: "length shown = H" using shown len by (simp add: tail_def)
  have 2: "shown = map display_cols (drop (length fc - H) fc)"
    using shown by (simp add: tail_def drop_map)
  have 8: "display_cols = (\<lambda>r. \<lparr>ds = ds r, yhat = yhat r, yhat_lower = yhat_lower r,
                                    yhat_upper = yhat_upper r\<rparr>)"
    by (rule ext) (simp add: display_cols_def)
  have 3: "map ds (take (length fc - H) fc) = hist"
    using ds len by (simp add: take_map [symmetric])
  have 4: "map ds shown = map (\<lambda>i. last hist + int i) [1..<Suc H]"
    using ds len 2 by (simp add: o_def drop_map [symmetric])
  have 5: "\<forall>r \<in> set (take (length fc - H) fc). Some (ds r) \<in> fst ` set h"
  proof
    fix r assume "r \<in> set (take (length fc - H) fc)"
    then have "ds r \<in> set (map ds (take (length fc - H) fc))" by simp
    with 3 hist(3) show "Some (ds r) \<in> fst ` set h" by simp
  qed
  have 6: "\<forall>r \<in> set shown. \<forall>d. Some d \<in> fst ` set h \<longrightarrow> d < ds r"
  proof (intro ballI allI impI)
    fix r d assume r: "r \<in> set shown" and d: "Some d \<in> fst ` set h"
    from r have "ds r \<in> set (map ds shown)" by simp
    with 4 obtain i where "ds r = last hist + int i" "1 \<le> i" by auto
    moreover from d hist have "d \<le> last hist" by (simp add: sorted_le_last)
    ultimately show "d < ds r" by simp
  qed
  have 7: "H \<le> length fc" using len by simp
  show ?thesis
    using 1 2 [unfolded 8] 5 6 7 in_render [OF chart] in_render [OF fit]
    by (intro conjI exI [of _ fc] exI [of _ h]) simp_all
qed

theorem displayed_table_is_future_tail_witness:
  "Dataframe (Str ''A'')
     (map (\<lambda>d. \<lparr>ds = d, yhat = 12, yhat_lower = 11, yhat_upper = 13\<rparr>) [3, 4, 5, 6, 7, 8, 9])
     \<in> set (events (render (sample_ext small_table) 1 (Some (csv_file 2048)) 7 additive))
   \<and> length (map (\<lambda>d. \<lparr>ds = d, yhat = 12, yhat_lower = 11, yhat_upper = (13::real)\<rparr>)
               [3, 4, 5, 6, 7, 8, 9 :: int]) = 7
   \<and> (\<exists>fc. PlotlyChart (Str ''A'') fc
              \<in> set (events (render (sample_ext small_table) 1 (Some (csv_file 2048)) 7 additive))
          \<and> map (\<lambda>d. \<lparr>ds = d, yhat = 12, yhat_lower = 11, yhat_upper = 13\<rparr>) [3, 4, 5, 6, 7, 8, 9]
              = map (\<lambda>r. \<lparr>ds = ds r, yhat = yhat r, yhat_lower = yhat_lower r,
                            yhat_upper = yhat_upper r\<rparr>) (drop (length fc - 7) fc))"
proof -
  have d: "Dataframe (Str ''A'')
     (map (\<lambda>d. \<lparr>ds = d, yhat = 12, yhat_lower = 11, yhat_upper = 13\<rparr>) [3, 4, 5, 6, 7, 8, 9])
     \<in> set (events (render (sample_ext small_table) 1 (Some (csv_file 2048)) 7 additive))"
    by (simp add: small_render display_cols_def flat_def)
  from displayed_table_is_future_tail [OF small_load d] d show ?thesis by blast
qed

subsection \<open>The aggregate table\<close>

text \<open>C3, as stated, fails on a valid table without rows: the three required
  columns are there, there is no SKU, \<^verbatim>\<open>st.tabs\<close> raises on the empty list of labels, and
  no aggregate table reaches the spreadsheet writer.\<close>

theorem empty_table_counterexample:
  "check_cols required_cols (columns empty_table) = None
   \<and> render (sample_ext empty_table) 1 (Some (csv_file 2048)) 30 additive =
       \<lparr>events = [ReadCsv (csv_file 2048), Success Loaded],
        outcome = Raised StreamlitAPIException\<rparr>
   \<and> sheets (events (render (sample_ext empty_table) 1 (Some (csv_file 2048)) 30 additive)) = []"
  by (simp add: render_def load_def sample_ext_def csv_file_def MAX_SIZE_MB_def endswith_def
        pipeline_def validate_def required_cols_def empty_table_def forecast_all_def unique_def
        st_tabs_def sheets_Cons sheets_Nil)

text \<open>C3, amended.  For every loaded table that has the three required columns and
  at least one row, and on which no library call of the loop body raises for any SKU of
  the table, the render charts exactly one forecast table per distinct SKU, in the
  order of first appearance, each the forecast of its SKU; and the table handed to the
  spreadsheet writer is the concatenation of exactly these tables in that order, no
  row lost and none duplicated.\<close>

theorem one_forecast_table_per_sku:
  assumes "load E up = (ev1, Inr (Some df))"
      and "check_cols required_cols (columns df) = None"
      and "rows df \<noteq> []"
      and "\<forall>s \<in> set (map (\<lambda>r. r ''sku'') (rows df)). \<not> isl (snd (forecast_sku E rnd df p md s))"
  shows "map fst (charts (events (render E rnd up p md))) = unique (map (\<lambda>r. r ''sku'') (rows df))
       \<and> distinct (map fst (charts (events (render E rnd up p md))))
       \<and> set (map fst (charts (events (render E rnd up p md)))) = set (map (\<lambda>r. r ''sku'') (rows df))
       \<and> (\<forall>(s, fc) \<in> set (charts (events (render E rnd up p md))).
             snd (forecast_sku E rnd df p md s) = Inr fc)
       \<and> sheets (events (render E rnd up p md))
           = [to_excel (concat (map snd (charts (events (render E rnd up p md)))))]
       \<and> body (to_excel (concat (map snd (charts (events (render E rnd up p md))))))
           = concat (map snd (charts (events (render E rnd up p md))))"
proof -
  let ?skus = "unique (map (\<lambda>r. r ''sku'') (rows df))"
  from forecast_all_total [OF assms(3,4)] obtain all where
    "snd (forecast_all E rnd df p md) = Inr all" by blast
  from render_forecasts [OF assms(1,2) this]
  have la: "list_all2 (\<lambda>s fc. snd (forecast_sku E rnd df p md s) = Inr fc) ?skus all"
    and ch: "charts (events (render E rnd up p md)) = zip ?skus all"
    and sh: "sheets (events (render E rnd up p md)) = [to_excel (concat all)]" by simp_all
  from la have len: "length ?skus = length all" by (rule list_all2_lengthD)
  have "\<forall>(s, fc) \<in> set (zip ?skus all). snd (forecast_sku E rnd df p md s) = Inr fc"
    using la by (auto simp: list_all2_iff)
  with len ch sh show ?thesis
    by (simp add: unique_distinct unique_set to_excel_def)
qed

theorem one_forecast_table_per_sku_witness:
  "map fst (charts (events (render (sample_ext small_table) 1 (Some (csv_file 2048)) 7 additive)))
     = [Str ''A'', Str ''B'']
   \<and> sheets (events (render (sample_ext small_table) 1 (Some (csv_file 2048)) 7 additive))
     = [to_excel (flat (Str ''A'') 12 1 [1, 2, 3, 4, 5, 6, 7, 8, 9]
                  @ flat (Str ''B'') 9 1 [1, 2, 3, 4, 5, 6, 7, 8, 9])]"
proof -
  have v: "check_cols required_cols (columns small_table) = None"
    by (simp add: required_cols_def small_table_def)
  have n: "rows small_table \<noteq> []"
    by (simp add: small_table_def)
  have s: "set (map (\<lambda>r. r ''sku'') (rows small_table)) = {Str ''A'', Str ''B''}"
    using unique_set [of "map (\<lambda>r. r ''sku'') (rows small_table)"] by (simp add: small_skus)
  have a: "\<forall>s \<in> set (map (\<lambda>r. r ''sku'') (rows small_table)).
             \<not> isl (snd (forecast_sku (sample_ext small_table) 1 small_table 7 additive s))"
    unfolding s by (simp add: small_forecast_A small_forecast_B)
  from one_forecast_table_per_sku [OF small_load v n a]
  show ?thesis
    by (simp add: small_skus small_render charts_Cons charts_Nil)
qed



subsection \<open>The scenario of two entities with 400 daily observations\<close>

lemma scenario_load:
  "load (sample_ext scenario_table) (Some (csv_file 20000))
     = ([ReadCsv (csv_file 20000), Success Loaded], Inr (Some scenario_table))"
  by (simp add: load_def sample_ext_def csv_file_def MAX_SIZE_MB_def endswith_def)

lemma filter_series:
  "filter (\<lambda>r. pd_eq (r ''sku'') (Str a)) (series (Str b) v n) = (if a = b then series (Str b) v n else [])"
  by (simp add: series_def filter_map o_def obs_def)

lemma scenario_df_sku_A: "df_sku scenario_table (Str ''A'') = series (Str ''A'') 1 400"
  by (simp add: df_sku_def scenario_table_def filter_series)

lemma scenario_df_sku_B: "df_sku scenario_table (Str ''B'') = series (Str ''B'') 2 400"
  by (simp add: df_sku_def scenario_table_def filter_series)

lemma sku_series: "0 < n \<Longrightarrow> set (map (\<lambda>r. r ''sku'') (series s v n)) = {s}"
  by (auto simp: series_def obs_def)

lemma scenario_skus:
  "set (map (\<lambda>r. r ''sku'') (rows scenario_table)) = {Str ''A'', Str ''B''}"
proof -
  have "set (map (\<lambda>r. r ''sku'') (rows scenario_table))
          = set (map (\<lambda>r. r ''sku'') (series (Str ''A'') 1 400))
            \<union> set (map (\<lambda>r. r ''sku'') (series (Str ''B'') 2 400))"
    by (simp add: scenario_table_def)
  also have "\<dots> = {Str ''A''} \<union> {Str ''B''}"
    by (simp only: sku_series [of 400] zero_less_numeral)
  finally show ?thesis by auto
qed

lemma series_obs:
  assumes "2 \<le> n"
  shows "to_datetime (sample_ext t) (map (\<lambda>r. r ''fecha'') (series s v n))
           = Inr (map (\<lambda>i. Some (int i)) [0..<n])
       \<and> length (series s v n) = n \<and> length (map (\<lambda>i. Some (int i)) [0..<n]) = n
       \<and> distinct (map (\<lambda>i. Some (int i)) [0..<n])
       \<and> None \<notin> set (map (\<lambda>i. Some (int i)) [0..<n])
       \<and> \<not> isl (fit (sample_ext t) additive
                 (zip (map (\<lambda>i. Some (int i)) [0..<n]) (map (\<lambda>r. r ''demanda_real'') (series s v n))))"
proof -
  have 1: "to_datetime (sample_ext t) (map (\<lambda>r. r ''fecha'') (series s v n))
             = Inr (map (\<lambda>i. Some (int i)) [0..<n])"
    by (simp add: series_def sample_ext_def sample_to_datetime_def list_ex_iff obs_def o_def)
  have 2: "distinct (map (\<lambda>i. Some (int i)) [0..<n])"
    by (simp add: distinct_map inj_on_def)
  have 3: "None \<notin> set (map (\<lambda>i. Some (int i)) [0..<n])"
    by auto
  have "list_ex (\<lambda>p. fst p = None) (zip (map (\<lambda>i. Some (int i)) [0..<n]) ys) = False" for ys :: "cell list"
    by (auto simp: list_ex_iff dest!: set_zip_leftD)
  then have 4: "\<not> isl (fit (sample_ext t) additive
                 (zip (map (\<lambda>i. Some (int i)) [0..<n]) (map (\<lambda>r. r ''demanda_real'') (series s v n))))"
    using assms by (simp add: sample_ext_def sample_fit_def series_def)
  from 1 2 3 4 show ?thesis by (simp add: series_def)
qed

text \<open>C6.  A loaded table with the required columns whose SKUs are \<open>A\<close> and \<open>B\<close>,
  each with 400 observations on 400 different days whose dates parse and whose fit
  succeeds, rendered with horizon 30 in additive mode: exactly two forecast tables are
  produced, one for \<open>A\<close> and one for \<open>B\<close>, of 430 rows each, and the one worksheet
  handed to the writer has the header row and 860 data rows.\<close>

theorem scenario_two_entities:
  assumes l: "load E up = (ev1, Inr (Some df))"
      and v: "check_cols required_cols (columns df) = None"
      and ab: "set (map (\<lambda>r. r ''sku'') (rows df)) = {A, B}" "A \<noteq> B"
      and obs: "\<forall>s \<in> {A, B}. \<exists>dates.
                  to_datetime E (map (\<lambda>r. r ''fecha'') (df_sku df s)) = Inr dates
                \<and> length (df_sku df s) = 400 \<and> length dates = 400
                \<and> distinct dates \<and> None \<notin> set dates
                \<and> \<not> isl (fit E additive (zip dates (map (\<lambda>r. r ''demanda_real'') (df_sku df s))))"
  shows "map (\<lambda>(s, fc). length fc) (charts (events (render E rnd up 30 additive))) = [430, 430]
       \<and> set (map fst (charts (events (render E rnd up 30 additive)))) = {A, B}
       \<and> sheets (events (render E rnd up 30 additive))
           = [to_excel (concat (map snd (charts (events (render E rnd up 30 additive)))))]
       \<and> header (to_excel (concat (map snd (charts (events (render E rnd up 30 additive))))))
           = [''ds'', ''yhat'', ''yhat_lower'', ''yhat_upper'', ''sku'']
       \<and> length (body (to_excel (concat (map snd (charts (events (render E rnd up 30 additive)))))))
           = 860"
proof -
  let ?skus = "unique (map (\<lambda>r. r ''sku'') (rows df))"
  let ?evs = "events (render E rnd up 30 additive)"
  have ok: "\<exists>fc. snd (forecast_sku E rnd df 30 additive s) = Inr fc \<and> length fc = 430"
    if "s \<in> {A, B}" for s
  proof -
    from obs that obtain dates where
      d: "to_datetime E (map (\<lambda>r. r ''fecha'') (df_sku df s)) = Inr dates"
      and n: "length (df_sku df s) = 400" "length dates = 400"
      and di: "distinct dates" "None \<notin> set dates"
      and f: "\<not> isl (fit E additive (zip dates (map (\<lambda>r. r ''demanda_real'') (df_sku df s))))"
      by blast
    from n have len: "length dates = length (map (\<lambda>r. r ''demanda_real'') (df_sku df s))" by simp
    have mf: "List.map_filter fst (zip dates (map (\<lambda>r. r ''demanda_real'') (df_sku df s))) = map the dates"
      using map_filter_fst_zip [OF len di(2)] .
    have ne: "List.map_filter fst (zip dates (map (\<lambda>r. r ''demanda_real'') (df_sku df s))) \<noteq> []"
      unfolding mf using n(2) by auto
    from n have n': "length dates = length (df_sku df s)" by simp
    from forecast_sku_ok [OF d n' f ne, of rnd 30] obtain fc where
      "snd (forecast_sku E rnd df 30 additive s) = Inr fc"
      "length fc = length (remdups (map the dates)) + 30" unfolding mf by blast
    moreover have "length (remdups (map the dates)) = 400"
      using distinct_the [OF di] n(2) by (simp add: distinct_remdups_id)
    ultimately show ?thesis by simp
  qed
  have ne: "rows df \<noteq> []" using ab(1) by auto
  have tot: "\<forall>s \<in> set (map (\<lambda>r. r ''sku'') (rows df)). \<not> isl (snd (forecast_sku E rnd df 30 additive s))"
    unfolding ab(1)
  proof
    fix s assume "s \<in> {A, B}"
    from ok [OF this] obtain fc where "snd (forecast_sku E rnd df 30 additive s) = Inr fc" by blast
    then show "\<not> isl (snd (forecast_sku E rnd df 30 additive s))" by simp
  qed
  from forecast_all_total [OF ne tot] obtain all where
    f: "snd (forecast_all E rnd df 30 additive) = Inr all" by blast
  from render_forecasts [OF l v f]
  have la: "list_all2 (\<lambda>s fc. snd (forecast_sku E rnd df 30 additive s) = Inr fc) ?skus all"
    and ch: "charts ?evs = zip ?skus all"
    and sh: "sheets ?evs = [to_excel (concat all)]" by simp_all
  from la have len: "length ?skus = length all" by (rule list_all2_lengthD)
  have "length ?skus = card (set ?skus)"
    using unique_distinct [of "map (\<lambda>r. r ''sku'') (rows df)"] by (simp add: distinct_card)
  also have "\<dots> = 2" using ab by (simp add: unique_set)
  finally have l2: "length ?skus = 2" .
  have each: "length fc = 430" if "fc \<in> set all" for fc
  proof -
    from that obtain i where i: "i < length all" "all ! i = fc" by (auto simp: in_set_conv_nth)
    with la len have r: "snd (forecast_sku E rnd df 30 additive (?skus ! i)) = Inr fc"
      by (auto simp: list_all2_conv_all_nth)
    from i len have "?skus ! i \<in> set ?skus" by simp
    then have "?skus ! i \<in> {A, B}" using ab(1) by (simp add: unique_set)
    from ok [OF this] r show ?thesis by auto
  qed
  from l2 len obtain a b where ab': "all = [a, b]"
    by (cases all; cases "tl all"; cases "tl (tl all)") auto
  with each have "length a = 430" "length b = 430" by simp_all
  with ab' have lens: "map length all = [430, 430]" "length (concat all) = 860" by simp_all
  from len ch have ms: "map snd (charts ?evs) = all" and mf: "map fst (charts ?evs) = ?skus"
    by simp_all
  have "map (\<lambda>(s, fc). length fc) (charts ?evs) = map length (map snd (charts ?evs))"
    by (simp add: case_prod_unfold)
  with lens ms have 1: "map (\<lambda>(s, fc). length fc) (charts ?evs) = [430, 430]" by simp
  from mf have 2: "set (map fst (charts ?evs)) = {A, B}"
    using ab(1) unique_set [of "map (\<lambda>r. r ''sku'') (rows df)"] by simp
  show ?thesis
    using 1 2 sh lens(2) by (simp add: ms to_excel_def forecast_columns_def)
qed

theorem scenario_two_entities_witness:
  "map (\<lambda>(s, fc). length fc)
     (charts (events (render (sample_ext scenario_table) 1 (Some (csv_file 20000)) 30 additive)))
     = [430, 430]
   \<and> length (body (to_excel (concat (map snd
       (charts (events (render (sample_ext scenario_table) 1 (Some (csv_file 20000)) 30 additive)))))))
     = 860"
proof -
  have v: "check_cols required_cols (columns scenario_table) = None"
    by (simp add: required_cols_def scenario_table_def)
  have ne: "Str ''A'' \<noteq> Str ''B''" by simp
  have n: "(2::nat) \<le> 400" by simp
  have o: "\<forall>s \<in> {Str ''A'', Str ''B''}. \<exists>dates.
             to_datetime (sample_ext scenario_table) (map (\<lambda>r. r ''fecha'') (df_sku scenario_table s)) = Inr dates
           \<and> length (df_sku scenario_table s) = 400 \<and> length dates = 400
           \<and> distinct dates \<and> None \<notin> set dates
           \<and> \<not> isl (fit (sample_ext scenario_table) additive
                  (zip dates (map (\<lambda>r. r ''demanda_real'') (df_sku scenario_table s))))"
    using series_obs [OF n, of scenario_table "Str ''A''" 1]
          series_obs [OF n, of scenario_table "Str ''B''" 2]
    by (simp add: scenario_df_sku_A scenario_df_sku_B del: upt_rec_numeral distinct_map)
  from scenario_two_entities [OF scenario_load v scenario_skus ne o, of 1]
  show ?thesis by simp
qed

subsection \<open>Repeated renders\<close>

text \<open>C9.  Two renders with the same libraries, the same upload, the same horizon and
  the same seasonality mode, whatever each of them draws at random, call the fit on the
  same series in the same order and produce, SKU by SKU, forecast tables with the same
  timestamps and the same point estimates.\<close>

theorem renders_agree_on_points:
  "point_tables (events (render E rnd1 up p md)) = point_tables (events (render E rnd2 up p md))
   \<and> filter is_fit (events (render E rnd1 up p md)) = filter is_fit (events (render E rnd2 up p md))"
proof -
  obtain ev1 res where l: "load E up = (ev1, res)" by (cases "load E up")
  show ?thesis
  proof (cases res)
    case (Inl e)
    with l show ?thesis by (simp add: render_def)
  next
    case (Inr b)
    with l pipeline_rnd [of E rnd1 b p md rnd2] show ?thesis
      by (simp add: render_def Let_def point_tables_append)
  qed
qed

text \<open>The two renders need not be equal: in the sample instance the bounds follow the
  random draw, and the point tables agree all the same.\<close>

lemma renders_differ_in_bounds:
  "render (sample_ext small_table) 1 (Some (csv_file 2048)) 7 additive
     \<noteq> render (sample_ext small_table) 2 (Some (csv_file 2048)) 7 additive
   \<and> point_tables (events (render (sample_ext small_table) 1 (Some (csv_file 2048)) 7 additive))
     = [(Str ''A'', map (\<lambda>d. (d, 12)) [1, 2, 3, 4, 5, 6, 7, 8, 9]),
        (Str ''B'', map (\<lambda>d. (d, 9)) [1, 2, 3, 4, 5, 6, 7, 8, 9])]"
  by (simp add: small_render point_tables_def charts_Cons charts_Nil points_def flat_def)

end
